theory Spec2Isabelle
  imports Main "HOL-Library.Word"
begin

section \<open>Values decoded from JSON\<close>

text \<open>
  The backend (\<^verbatim>\<open>src/server.js\<close>) reads request bodies and bus payloads as JSON.
  A decoded value is one of the JSON shapes; \<open>None\<close> of type \<open>json option\<close> stands
  for JavaScript's \<^verbatim>\<open>undefined\<close> (a property that is absent). Numbers are modelled as
  integers.
\<close>

datatype json =
    JNull
  | JBool bool
  | JNum int
  | JStr string
  | JArr "json list"
  | JObj "(string \<times> json) list"

text \<open>JavaScript truthiness, as used by \<^verbatim>\<open>if (x)\<close>, \<^verbatim>\<open>!x\<close> and \<^verbatim>\<open>x || y\<close>.\<close>

fun truthy :: "json option \<Rightarrow> bool" where
  "truthy None = False"
| "truthy (Some JNull) = False"
| "truthy (Some (JBool b)) = b"
| "truthy (Some (JNum n)) = (n \<noteq> 0)"
| "truthy (Some (JStr s)) = (s \<noteq> [])"
| "truthy (Some (JArr xs)) = True"
| "truthy (Some (JObj kvs)) = True"

text \<open>
  Strict equality \<^verbatim>\<open>===\<close> of two separately decoded values: primitives compare by
  value, arrays and objects by identity, and two values that were decoded from two
  different messages are never the same object.
\<close>

fun strict_eq :: "json option \<Rightarrow> json option \<Rightarrow> bool" where
  "strict_eq None None = True"
| "strict_eq (Some JNull) (Some JNull) = True"
| "strict_eq (Some (JBool a)) (Some (JBool b)) = (a = b)"
| "strict_eq (Some (JNum a)) (Some (JNum b)) = (a = b)"
| "strict_eq (Some (JStr a)) (Some (JStr b)) = (a = b)"
| "strict_eq _ _ = False"

text \<open>
  Property access \<^verbatim>\<open>v.key\<close> for the keys the handlers read (none of them is a
  built-in property of a string, number, boolean or array). \<^verbatim>\<open>JSON.parse\<close> keeps the
  last of several entries with one key.
\<close>

fun get_prop :: "json \<Rightarrow> string \<Rightarrow> json option" where
  "get_prop (JObj kvs) k = map_of (rev kvs) k"
| "get_prop _ k = None"

text \<open>The decimal name of an array index, as a property key.\<close>

definition digit :: "nat \<Rightarrow> char" where
  "digit d = ''0123456789'' ! (d mod 10)"

fun index_key :: "nat \<Rightarrow> string" where
  "index_key i = (if 10 \<le> i then index_key (i div 10) else []) @ [digit i]"

text \<open>
  The own enumerable properties that the spread \<^verbatim>\<open>{...v}\<close> copies: the entries of an
  object, the indexed elements of an array, the indexed characters of a string, and
  nothing for a number or a boolean.
\<close>

fun own_props :: "json \<Rightarrow> (string \<times> json) list" where
  "own_props (JObj kvs) = kvs"
| "own_props (JArr xs) = zip (map index_key [0..<length xs]) xs"
| "own_props (JStr s) = zip (map index_key [0..<length s]) (map (\<lambda>c. JStr [c]) s)"
| "own_props _ = []"

section \<open>The durable store\<close>

text \<open>
  The four tables of \<^verbatim>\<open>initDatabase\<close>, each a list of rows in insertion order. Only
  the columns that a query of the server reads or writes are kept (the defaulted
  timestamps and the serial ids of \<^verbatim>\<open>user_devices\<close> and \<^verbatim>\<open>device_history\<close> are not).
  The two \<^verbatim>\<open>SERIAL\<close> sequences that hand out \<^verbatim>\<open>users.id\<close> and \<^verbatim>\<open>devices.id\<close> are part of
  the store; a rollback does not rewind them.

  A query fails, and the handler that sent it ends in its \<^verbatim>\<open>catch\<close>, when the store
  rejects a parameter for the type of its column. These rejections are written out:
  \<^item> an external user id outside the range of \<^verbatim>\<open>BIGINT\<close>, in the pairing and the sharing
    route (the route rolls back and answers 500);
  \<^item> a device id that holds the NUL character, which no text parameter may, in the owner
    check of the sharing route (the route rolls back and answers 500);
  \<^item> a telemetry value that the \<^verbatim>\<open>BOOLEAN\<close> or an \<^verbatim>\<open>INTEGER\<close> column of
    \<^verbatim>\<open>device_history\<close> does not take (\<^verbatim>\<open>saveDeviceStatus\<close> logs the error and writes no row).

  Elsewhere a text parameter is taken as one the store admits (a device id that arrives
  on the bus holds no NUL character, and the length limit of the \<^verbatim>\<open>VARCHAR(255)\<close> columns is
  not modelled), and the connection to the store does not fail.

  The database server reads a text parameter for an \<^verbatim>\<open>INTEGER\<close> or a \<^verbatim>\<open>BOOLEAN\<close> column
  with its own input function for that type. The two functions are part of the server,
  not of this repository, so they are left open: \<open>int4in\<close> and \<open>boolin\<close> give the value
  read from a text, or \<open>None\<close> where the server rejects the text.
\<close>

record user_row =
  u_id :: nat
  telegram_id :: int
  username :: "string option"

record device_row =
  d_id :: nat
  device_id :: string
  d_name :: string

record edge_row =
  ud_user_id :: nat
  ud_device_id :: nat
  is_owner :: bool

text \<open>A history row holds the values as its columns store them, \<open>None\<close> for \<^verbatim>\<open>NULL\<close>.\<close>

record history_row =
  h_device_id :: string
  relay_state :: "bool option"
  wifi_rssi :: "int option"
  uptime :: "int option"
  free_heap :: "int option"

record database =
  users :: "user_row list"
  devices :: "device_row list"
  user_devices :: "edge_row list"
  device_history :: "history_row list"
  users_id_seq :: nat
  devices_id_seq :: nat
  int4in :: "string \<Rightarrow> int option"
  boolin :: "string \<Rightarrow> bool option"

text \<open>The values a \<^verbatim>\<open>BIGINT\<close> column admits.\<close>

definition bigint :: "int \<Rightarrow> bool" where
  "bigint n = (- 9223372036854775808 \<le> n \<and> n \<le> 9223372036854775807)"

text \<open>The texts the store admits as a text parameter: those without the NUL character.\<close>

definition text_param :: "string \<Rightarrow> bool" where
  "text_param t = (CHR 0x00 \<notin> set t)"

text \<open>
  What a column does with a value passed as a query parameter; the outer \<open>None\<close> is a
  rejection. The driver sends \<^verbatim>\<open>undefined\<close> and \<^verbatim>\<open>null\<close> as \<^verbatim>\<open>NULL\<close>, a number, a boolean
  and a string as their text, an array as an array literal and an object as its JSON text
  (both begin with a brace, which neither type reads). A number's text is read by an
  \<^verbatim>\<open>INTEGER\<close> column when the number is in the 32-bit range, and by a \<^verbatim>\<open>BOOLEAN\<close> column
  when it is 0 or 1; the text \<^verbatim>\<open>true\<close> or \<^verbatim>\<open>false\<close> of a boolean is read by a
  \<^verbatim>\<open>BOOLEAN\<close> column only.
\<close>

fun integer_column :: "(string \<Rightarrow> int option) \<Rightarrow> json option \<Rightarrow> int option option" where
  "integer_column rd None = Some None"
| "integer_column rd (Some JNull) = Some None"
| "integer_column rd (Some (JNum n)) =
     (if - 2147483648 \<le> n \<and> n \<le> 2147483647 then Some (Some n) else None)"
| "integer_column rd (Some (JStr t)) = map_option Some (rd t)"
| "integer_column rd (Some (JBool b)) = None"
| "integer_column rd (Some (JArr xs)) = None"
| "integer_column rd (Some (JObj kvs)) = None"

fun boolean_column :: "(string \<Rightarrow> bool option) \<Rightarrow> json option \<Rightarrow> bool option option" where
  "boolean_column rd None = Some None"
| "boolean_column rd (Some JNull) = Some None"
| "boolean_column rd (Some (JBool b)) = Some (Some b)"
| "boolean_column rd (Some (JNum n)) =
     (if n = 0 then Some (Some False) else if n = 1 then Some (Some True) else None)"
| "boolean_column rd (Some (JStr t)) = map_option Some (rd t)"
| "boolean_column rd (Some (JArr xs)) = None"
| "boolean_column rd (Some (JObj kvs)) = None"

text \<open>\<^verbatim>\<open>ROLLBACK\<close>: the tables of the snapshot taken at \<^verbatim>\<open>BEGIN\<close>, the sequences as they are.\<close>

definition rollback :: "database \<Rightarrow> database \<Rightarrow> database" where
  "rollback snapshot db =
     snapshot\<lparr>users_id_seq := users_id_seq db, devices_id_seq := devices_id_seq db\<rparr>"

text \<open>\<^verbatim>\<open>SELECT id FROM users WHERE telegram_id = $1\<close>\<close>

definition select_user_ids :: "database \<Rightarrow> int \<Rightarrow> nat list" where
  "select_user_ids db tid = map u_id (filter (\<lambda>u. telegram_id u = tid) (users db))"

text \<open>\<^verbatim>\<open>SELECT id FROM devices WHERE device_id = $1\<close>\<close>

definition select_device_ids :: "database \<Rightarrow> string \<Rightarrow> nat list" where
  "select_device_ids db dev = map d_id (filter (\<lambda>d. device_id d = dev) (devices db))"

text \<open>\<^verbatim>\<open>SELECT * FROM user_devices WHERE user_id = $1 AND device_id = $2\<close>\<close>

definition select_access :: "database \<Rightarrow> nat \<Rightarrow> nat \<Rightarrow> edge_row list" where
  "select_access db uid did =
     filter (\<lambda>e. ud_user_id e = uid \<and> ud_device_id e = did) (user_devices db)"

text \<open>\<^verbatim>\<open>INSERT INTO users (telegram_id, username) VALUES ($1, $2) RETURNING id\<close>\<close>

definition insert_user :: "database \<Rightarrow> int \<Rightarrow> string option \<Rightarrow> nat \<times> database" where
  "insert_user db tid uname =
     (let new_id = Suc (users_id_seq db)
      in (new_id,
          db\<lparr>users := users db @ [\<lparr>u_id = new_id, telegram_id = tid, username = uname\<rparr>],
             users_id_seq := new_id\<rparr>))"

text \<open>\<^verbatim>\<open>INSERT INTO devices (device_id, name) VALUES ($1, $2) RETURNING id\<close>\<close>

definition insert_device :: "database \<Rightarrow> string \<Rightarrow> string \<Rightarrow> nat \<times> database" where
  "insert_device db dev nm =
     (let new_id = Suc (devices_id_seq db)
      in (new_id,
          db\<lparr>devices := devices db @ [\<lparr>d_id = new_id, device_id = dev, d_name = nm\<rparr>],
             devices_id_seq := new_id\<rparr>))"

text \<open>\<^verbatim>\<open>INSERT INTO user_devices (user_id, device_id, is_owner) VALUES ($1, $2, $3)\<close>\<close>

definition insert_edge :: "database \<Rightarrow> nat \<Rightarrow> nat \<Rightarrow> bool \<Rightarrow> database" where
  "insert_edge db uid did own =
     db\<lparr>user_devices := user_devices db
            @ [\<lparr>ud_user_id = uid, ud_device_id = did, is_owner = own\<rparr>]\<rparr>"

text \<open>\<^verbatim>\<open>DELETE FROM user_devices WHERE user_id = $1 AND device_id = $2\<close>\<close>

definition delete_edge :: "database \<Rightarrow> nat \<Rightarrow> nat \<Rightarrow> database" where
  "delete_edge db uid did =
     db\<lparr>user_devices :=
          filter (\<lambda>e. \<not> (ud_user_id e = uid \<and> ud_device_id e = did)) (user_devices db)\<rparr>"

text \<open>\<^verbatim>\<open>SELECT COUNT(*) FROM user_devices WHERE device_id = $1\<close>\<close>

definition count_edges :: "database \<Rightarrow> nat \<Rightarrow> nat" where
  "count_edges db did = length (filter (\<lambda>e. ud_device_id e = did) (user_devices db))"

text \<open>
  \<^verbatim>\<open>DELETE FROM devices WHERE id = $1\<close>; the foreign key of \<^verbatim>\<open>user_devices.device_id\<close> is
  declared \<^verbatim>\<open>ON DELETE CASCADE\<close>, \<^verbatim>\<open>device_history\<close> has no foreign key.
\<close>

definition delete_device_row :: "database \<Rightarrow> nat \<Rightarrow> database" where
  "delete_device_row db did =
     db\<lparr>devices := filter (\<lambda>d. d_id d \<noteq> did) (devices db),
        user_devices := filter (\<lambda>e. ud_device_id e \<noteq> did) (user_devices db)\<rparr>"

section \<open>The server's state and replies\<close>

text \<open>
  A presence record is the object stored in \<^verbatim>\<open>deviceStatuses\<close>: the telemetry
  properties copied by the spread, and the two properties every stored record has,
  \<^verbatim>\<open>lastSeen\<close> (milliseconds) and \<^verbatim>\<open>online\<close>.
\<close>

record presence =
  telemetry :: "string \<rightharpoonup> json"
  lastSeen :: int
  online :: bool

text \<open>
  The server's state: the store behind \<^verbatim>\<open>pool\<close>, the two in-memory maps, and the
  messages handed to \<^verbatim>\<open>mqttClient.publish\<close>, in order. A request field is taken at the
  type of the column it is compared with: an external user id is an integer, a device id
  and a device name are strings; a confirmation code is any JSON value.
\<close>

record server =
  pool :: database
  deviceStatuses :: "string \<rightharpoonup> presence"
  deviceConfirmationCodes :: "string \<rightharpoonup> json"
  published :: "(string \<times> json) list"

text \<open>
  The answers of the routes. Each failure is one \<^verbatim>\<open>return res.status(...)\<close> of the
  source, and \<open>http_status\<close> gives its status code:
  \<^item> \<open>InvalidCode\<close>, pairing: the stored code is missing or is not the submitted one;
  \<^item> \<open>UserNotFound\<close>, pairing: \<^verbatim>\<open>User not found\<close>;
  \<^item> \<open>AlreadyLinked\<close>, pairing: the caller already has access to the device;
  \<^item> \<open>UserIdRequired\<close>, unpairing: \<^verbatim>\<open>userId is required\<close>;
  \<^item> \<open>UserOrDeviceNotFound\<close>, unpairing: \<^verbatim>\<open>User or device not found\<close>;
  \<^item> \<open>Forbidden\<close>, sharing: only the owner may share the device;
  \<^item> \<open>DeviceNotFound\<close>, sharing: \<^verbatim>\<open>Device not found\<close>;
  \<^item> \<open>TargetAlreadyLinked\<close>, sharing: the target already has access to the device;
  \<^item> \<open>InternalError\<close>, the \<^verbatim>\<open>catch\<close> of a route: \<^verbatim>\<open>Internal server error\<close>.
\<close>

datatype failure =
    InvalidCode
  | UserNotFound
  | AlreadyLinked
  | UserIdRequired
  | UserOrDeviceNotFound
  | Forbidden
  | DeviceNotFound
  | TargetAlreadyLinked
  | InternalError

fun http_status :: "failure \<Rightarrow> nat" where
  "http_status InvalidCode = 400"
| "http_status UserNotFound = 404"
| "http_status AlreadyLinked = 400"
| "http_status UserIdRequired = 400"
| "http_status UserOrDeviceNotFound = 404"
| "http_status Forbidden = 403"
| "http_status DeviceNotFound = 404"
| "http_status TargetAlreadyLinked = 400"
| "http_status InternalError = 500"

datatype reply =
    Failure failure
  | Success
  | Device_reply "(device_row \<times> bool) option"

section \<open>Pairing: \<^verbatim>\<open>POST /api/devices\<close>\<close>

text \<open>\<^verbatim>\<open>name || `Solar Controller ${deviceId.slice(-4)}`\<close>\<close>

definition default_name :: "string option \<Rightarrow> string \<Rightarrow> string" where
  "default_name nm dev =
     (case nm of
        Some n \<Rightarrow> if n \<noteq> [] then n else ''Solar Controller '' @ drop (length dev - 4) dev
      | None \<Rightarrow> ''Solar Controller '' @ drop (length dev - 4) dev)"

text \<open>
  The closing query of the route, run after \<^verbatim>\<open>COMMIT\<close>: the device row joined with the
  caller's edge, first row.
\<close>

definition full_device :: "database \<Rightarrow> nat \<Rightarrow> nat \<Rightarrow> (device_row \<times> bool) option" where
  "full_device db did uid =
     (case concat (map (\<lambda>d. map (\<lambda>e. (d, is_owner e))
                              (filter (\<lambda>e. ud_device_id e = d_id d \<and> ud_user_id e = uid)
                                 (user_devices db)))
                    (filter (\<lambda>d. d_id d = did) (devices db))) of
        [] \<Rightarrow> None
      | r # _ \<Rightarrow> Some r)"

text \<open>
  The registry is read before any query. The first query compares \<open>userId\<close> with the
  \<^verbatim>\<open>BIGINT\<close> column \<^verbatim>\<open>telegram_id\<close>; when the store rejects the id, the route ends in its
  \<^verbatim>\<open>catch\<close>, which rolls back and answers 500. The text parameters of the later queries
  (the device id, which has a code in the registry, and the name) are taken as admitted.
\<close>

definition add_device ::
  "server \<Rightarrow> int \<Rightarrow> string \<Rightarrow> json option \<Rightarrow> string option \<Rightarrow> reply \<times> server" where
  "add_device s userId deviceId confirmationCode nm =
     (let snapshot = pool s;
          storedCode = deviceConfirmationCodes s deviceId
      in if \<not> truthy storedCode \<or> \<not> strict_eq storedCode confirmationCode
         then (Failure InvalidCode, s\<lparr>pool := rollback snapshot (pool s)\<rparr>)
         else if \<not> bigint userId
         then (Failure InternalError, s\<lparr>pool := rollback snapshot (pool s)\<rparr>)
         else
           (case select_user_ids (pool s) userId of
              [] \<Rightarrow> (Failure UserNotFound, s\<lparr>pool := rollback snapshot (pool s)\<rparr>)
            | userDbId # _ \<Rightarrow>
                (let (deviceDbId, isNewDevice, db1) =
                       (case select_device_ids (pool s) deviceId of
                          [] \<Rightarrow>
                            (let (new_id, d) =
                                   insert_device (pool s) deviceId (default_name nm deviceId)
                             in (new_id, True, d))
                        | existing # _ \<Rightarrow> (existing, False, pool s))
                 in if select_access db1 userDbId deviceDbId \<noteq> []
                    then (Failure AlreadyLinked, s\<lparr>pool := rollback snapshot db1\<rparr>)
                    else
                      (let db2 = insert_edge db1 userDbId deviceDbId isNewDevice
                       in (Device_reply (full_device db2 deviceDbId userDbId),
                           s\<lparr>pool := db2\<rparr>)))))"

section \<open>Unpairing: \<^verbatim>\<open>DELETE /api/devices/:deviceId\<close>\<close>

text \<open>
  \<open>userId\<close> is read from the request body; \<^verbatim>\<open>!userId\<close> holds when it is absent and
  when it is the number zero. The queries of this route are taken as accepted (an id that
  the store has a row for is one that its column admits); a rejected query would end the
  route in its \<^verbatim>\<open>catch\<close>, which rolls back and answers 500.
\<close>

definition delete_device :: "server \<Rightarrow> string \<Rightarrow> int option \<Rightarrow> reply \<times> server" where
  "delete_device s deviceId userId =
     (let snapshot = pool s
      in case userId of
           None \<Rightarrow> (Failure UserIdRequired, s\<lparr>pool := rollback snapshot (pool s)\<rparr>)
         | Some uid \<Rightarrow>
             if uid = 0
             then (Failure UserIdRequired, s\<lparr>pool := rollback snapshot (pool s)\<rparr>)
             else
               (case select_user_ids (pool s) uid of
                  [] \<Rightarrow> (Failure UserOrDeviceNotFound, s\<lparr>pool := rollback snapshot (pool s)\<rparr>)
                | userDbId # _ \<Rightarrow>
                    (case select_device_ids (pool s) deviceId of
                       [] \<Rightarrow>
                         (Failure UserOrDeviceNotFound,
                          s\<lparr>pool := rollback snapshot (pool s)\<rparr>)
                     | deviceDbId # _ \<Rightarrow>
                         (let db1 = delete_edge (pool s) userDbId deviceDbId;
                              db2 = (if count_edges db1 deviceDbId = 0
                                     then delete_device_row db1 deviceDbId
                                     else db1)
                          in (Success, s\<lparr>pool := db2\<rparr>)))))"

section \<open>Relay control: \<^verbatim>\<open>POST /api/devices/:deviceId/control\<close>\<close>

text \<open>
  The payload is the object that \<^verbatim>\<open>JSON.stringify({ command, state })\<close> serialises: a
  property that is \<^verbatim>\<open>undefined\<close> is left out. \<open>published\<close> records the calls of
  \<^verbatim>\<open>mqttClient.publish\<close> in order.
\<close>

definition command_payload :: "json option \<Rightarrow> json option \<Rightarrow> json" where
  "command_payload command state =
     JObj ((case command of None \<Rightarrow> [] | Some c \<Rightarrow> [(''command'', c)])
           @ (case state of None \<Rightarrow> [] | Some v \<Rightarrow> [(''state'', v)]))"

definition control :: "server \<Rightarrow> string \<Rightarrow> json option \<Rightarrow> json option \<Rightarrow> reply \<times> server" where
  "control s deviceId command state =
     (let topic = ''solar/'' @ deviceId @ ''/command'';
          payload = command_payload command state
      in (Success, s\<lparr>published := published s @ [(topic, payload)]\<rparr>))"

section \<open>Sharing: \<^verbatim>\<open>POST /api/devices/:deviceId/share\<close>\<close>

text \<open>
  The owner check joins \<^verbatim>\<open>user_devices\<close> with \<^verbatim>\<open>users\<close> and \<^verbatim>\<open>devices\<close> and reads
  \<^verbatim>\<open>is_owner\<close> of the first row. It compares \<open>ownerId\<close>, and the lookup of the target
  compares \<open>targetTelegramId\<close>, with the \<^verbatim>\<open>BIGINT\<close> column \<^verbatim>\<open>telegram_id\<close>, and it passes
  \<open>deviceId\<close> as a text parameter; when the store rejects one of them, the route ends in
  its \<^verbatim>\<open>catch\<close>, which rolls back and answers 500.
\<close>

definition owner_result :: "database \<Rightarrow> int \<Rightarrow> string \<Rightarrow> bool list" where
  "owner_result d ownerId deviceId =
     concat (map (\<lambda>ud.
        concat (map (\<lambda>u.
          map (\<lambda>dv. is_owner ud)
            (filter (\<lambda>dv. d_id dv = ud_device_id ud \<and> device_id dv = deviceId) (devices d)))
          (filter (\<lambda>u. u_id u = ud_user_id ud \<and> telegram_id u = ownerId) (users d))))
       (user_devices d))"

definition share_device :: "server \<Rightarrow> string \<Rightarrow> int \<Rightarrow> int \<Rightarrow> reply \<times> server" where
  "share_device s deviceId ownerId targetTelegramId =
     (let snapshot = pool s
      in if \<not> bigint ownerId \<or> \<not> text_param deviceId
         then (Failure InternalError, s\<lparr>pool := rollback snapshot (pool s)\<rparr>)
         else
         case owner_result (pool s) ownerId deviceId of
           [] \<Rightarrow> (Failure Forbidden, s\<lparr>pool := rollback snapshot (pool s)\<rparr>)
         | owner_flag # _ \<Rightarrow>
             if \<not> owner_flag
             then (Failure Forbidden, s\<lparr>pool := rollback snapshot (pool s)\<rparr>)
             else if \<not> bigint targetTelegramId
             then (Failure InternalError, s\<lparr>pool := rollback snapshot (pool s)\<rparr>)
             else
               (let (targetUserId, db1) =
                      (case select_user_ids (pool s) targetTelegramId of
                         [] \<Rightarrow> insert_user (pool s) targetTelegramId None
                       | existing # _ \<Rightarrow> (existing, pool s))
                in case select_device_ids db1 deviceId of
                     [] \<Rightarrow> (Failure DeviceNotFound, s\<lparr>pool := rollback snapshot db1\<rparr>)
                   | deviceDbId # _ \<Rightarrow>
                       if select_access db1 targetUserId deviceDbId \<noteq> []
                       then (Failure TargetAlreadyLinked, s\<lparr>pool := rollback snapshot db1\<rparr>)
                       else (Success, s\<lparr>pool := insert_edge db1 targetUserId deviceDbId False\<rparr>)))"

section \<open>Bus messages: \<^verbatim>\<open>mqttClient.on('message')\<close>\<close>

text \<open>\<^verbatim>\<open>topic.split('/')\<close>\<close>

fun split_on :: "char \<Rightarrow> string \<Rightarrow> string list" where
  "split_on c [] = [[]]"
| "split_on c (x # xs) =
     (if x = c then [] # split_on c xs
      else (case split_on c xs of
              [] \<Rightarrow> [[x]]
            | w # ws \<Rightarrow> (x # w) # ws))"

text \<open>
  The properties of \<^verbatim>\<open>{...v, lastSeen: ..., online: ...}\<close> other than the two written
  last, which replace whatever \<open>v\<close> had under those keys.
\<close>

definition spread_telemetry :: "json \<Rightarrow> (string \<rightharpoonup> json)" where
  "spread_telemetry v =
     (\<lambda>k. if k = ''lastSeen'' \<or> k = ''online'' then None else map_of (rev (own_props v)) k)"

text \<open>
  The \<^verbatim>\<open>INSERT\<close> of \<^verbatim>\<open>saveDeviceStatus\<close>: the row that the store writes for the five
  parameters, or \<open>None\<close> when it rejects one of them for its column.
\<close>

definition history_values :: "database \<Rightarrow> string \<Rightarrow> json \<Rightarrow> history_row option" where
  "history_values d deviceId status =
     (case boolean_column (boolin d) (get_prop status ''relayState'') of
        None \<Rightarrow> None
      | Some relay \<Rightarrow>
          (case integer_column (int4in d) (get_prop status ''wifiRSSI'') of
             None \<Rightarrow> None
           | Some signal \<Rightarrow>
               (case integer_column (int4in d) (get_prop status ''uptime'') of
                  None \<Rightarrow> None
                | Some up \<Rightarrow>
                    (case integer_column (int4in d) (get_prop status ''freeHeap'') of
                       None \<Rightarrow> None
                     | Some heap \<Rightarrow>
                         Some \<lparr>h_device_id = deviceId, relay_state = relay,
                               wifi_rssi = signal, uptime = up, free_heap = heap\<rparr>))))"

text \<open>
  \<^verbatim>\<open>saveDeviceStatus\<close>: the insert inside its own \<^verbatim>\<open>try\<close>; when the store rejects it, the
  \<^verbatim>\<open>catch\<close> logs the error and the function returns with nothing written.
\<close>

definition saveDeviceStatus :: "database \<Rightarrow> string \<Rightarrow> json \<Rightarrow> database" where
  "saveDeviceStatus d deviceId status =
     (case history_values d deviceId status of
        None \<Rightarrow> d
      | Some row \<Rightarrow> d\<lparr>device_history := device_history d @ [row]\<rparr>)"

text \<open>
  The conversion to a string that a template literal applies to a value, as far as it
  can throw. An object that has an own property \<^verbatim>\<open>toString\<close> (never a function in a value
  decoded from JSON) has no usable conversion, and the literal throws a \<^verbatim>\<open>TypeError\<close>; an
  object without one prints through \<^verbatim>\<open>Object.prototype.toString\<close>. An array prints its
  elements, so it throws when one of them does; \<^verbatim>\<open>null\<close> elements print as nothing.
\<close>

fun to_string_throws :: "json \<Rightarrow> bool" where
  "to_string_throws (JObj kvs) = (''toString'' \<in> fst ` set kvs)"
| "to_string_throws (JArr xs) = (\<exists>x \<in> set xs. to_string_throws x)"
| "to_string_throws _ = False"

text \<open>
  What the handler did with a message: \<open>Handled\<close> when a branch ran to its end,
  \<open>Dropped\<close> when the \<^verbatim>\<open>catch\<close> logged an exception, \<open>Ignored\<close> when the topic's third
  level is neither \<^verbatim>\<open>status\<close> nor \<^verbatim>\<open>online\<close>. The status branch throws on a payload that
  \<^verbatim>\<open>JSON.parse\<close> rejects, on the payload \<^verbatim>\<open>null\<close>, whose property read throws, and, after
  the registry has been written, in the \<^verbatim>\<open>console.log\<close> that prints the confirmation
  code through a template literal.

  \<open>JSON_parse\<close> is the runtime's parser, \<open>None\<close> where it throws; \<open>now\<close> is the
  value of \<^verbatim>\<open>new Date()\<close> in milliseconds.
\<close>

datatype outcome = Handled | Dropped | Ignored

definition on_message ::
  "(string \<Rightarrow> json option) \<Rightarrow> int \<Rightarrow> server \<Rightarrow> string \<Rightarrow> string \<Rightarrow> outcome \<times> server" where
  "on_message JSON_parse now s topic message =
     (case split_on CHR ''/'' topic of
        _ # deviceId # messageType # _ \<Rightarrow>
          if messageType = ''status'' then
            (case JSON_parse message of
               None \<Rightarrow> (Dropped, s)
             | Some status \<Rightarrow>
                 if status = JNull then (Dropped, s)
                 else
                   (let (s1, log_threw) =
                          (case get_prop status ''confirmationCode'' of
                             None \<Rightarrow> (s, False)
                           | Some code \<Rightarrow>
                               if truthy (Some code)
                               then (s\<lparr>deviceConfirmationCodes :=
                                         (deviceConfirmationCodes s)(deviceId \<mapsto> code)\<rparr>,
                                     to_string_throws code)
                               else (s, False))
                    in if log_threw then (Dropped, s1)
                       else
                         (let s2 = s1\<lparr>deviceStatuses := (deviceStatuses s1)(deviceId \<mapsto>
                                      \<lparr>telemetry = spread_telemetry status,
                                       lastSeen = now, online = True\<rparr>)\<rparr>;
                              deviceExists = select_device_ids (pool s2) deviceId
                          in if deviceExists \<noteq> []
                             then (Handled,
                                   s2\<lparr>pool := saveDeviceStatus (pool s2) deviceId status\<rparr>)
                             else (Handled, s2))))
          else if messageType = ''online'' then
            (let isOnline = (message = ''true'');
                 currentStatus = (case deviceStatuses s deviceId of
                                    None \<Rightarrow> Map.empty
                                  | Some r \<Rightarrow> telemetry r)
             in (Handled,
                 s\<lparr>deviceStatuses := (deviceStatuses s)(deviceId \<mapsto>
                      \<lparr>telemetry = currentStatus, lastSeen = now, online = isOnline\<rparr>)\<rparr>))
          else (Ignored, s)
      | _ \<Rightarrow> (Ignored, s))"

section \<open>The presence sweep\<close>


section \<open>The firmware's bus reconnect\<close>

text \<open>
  The device side (the sketch that follows the server in \<^verbatim>\<open>src/server.js\<close>). Its state
  is the globals the reconnect routine touches, the static \<^verbatim>\<open>lastAttempt\<close> of
  \<^verbatim>\<open>reconnectMQTT\<close>, and the state of the bus client: whether its session is up, and the
  calls made on it, in order. \<^verbatim>\<open>unsigned long\<close> is 32 bits wide on the ESP32, so
  \<^verbatim>\<open>millis()\<close> and the subtraction wrap around.
\<close>

datatype bus_call =
    Connect string
  | Subscribe string
  | Publish string string bool
  | Publish_json string json

record firmware =
  fw_deviceId :: string
  wifiConnected :: bool
  mqttConnected :: bool
  relayState :: bool
  lastAttempt :: "32 word"
  client_connected :: bool
  client_calls :: "bus_call list"

text \<open>
  What one run of the routine reads from its environment: \<^verbatim>\<open>millis()\<close> at the cooldown
  test, \<^verbatim>\<open>millis()\<close> when \<^verbatim>\<open>lastAttempt\<close> is stored, whether the broker accepts the
  connection, and the three readings \<^verbatim>\<open>sendStatus\<close> puts in its message.
\<close>

record readings =
  millis_test :: "32 word"
  millis_store :: "32 word"
  broker_accepts :: bool
  millis_status :: "32 word"
  rssi :: int
  free_heap_now :: "32 word"

definition sendStatus :: "readings \<Rightarrow> firmware \<Rightarrow> firmware" where
  "sendStatus r fw =
     (if \<not> client_connected fw then fw
      else
        (let doc = JObj [(''deviceId'', JStr (fw_deviceId fw)),
                         (''relayState'', JBool (relayState fw)),
                         (''wifiRSSI'', JNum (rssi r)),
                         (''uptime'', JNum (uint (millis_status r div 1000))),
                         (''freeHeap'', JNum (uint (free_heap_now r)))];
             statusTopic = ''solar/'' @ fw_deviceId fw @ ''/status''
         in fw\<lparr>client_calls := client_calls fw @ [Publish_json statusTopic doc]\<rparr>))"

text \<open>
  \<^verbatim>\<open>reconnectMQTT\<close>. The first component of the result tells whether
  \<^verbatim>\<open>client.connect\<close> was called.
\<close>

definition reconnectMQTT :: "readings \<Rightarrow> firmware \<Rightarrow> bool \<times> firmware" where
  "reconnectMQTT r fw =
     (if \<not> wifiConnected fw then (False, fw)
      else if millis_test r - lastAttempt fw < 5000 then (False, fw)
      else
        (let fw1 = fw\<lparr>lastAttempt := millis_store r,
                      client_calls := client_calls fw @ [Connect (fw_deviceId fw)]\<rparr>
         in if broker_accepts r
            then
              (let fw2 = fw1\<lparr>client_connected := True, mqttConnected := True\<rparr>;
                   commandTopic = ''solar/'' @ fw_deviceId fw2 @ ''/command'';
                   fw3 = fw2\<lparr>client_calls := client_calls fw2 @ [Subscribe commandTopic]\<rparr>;
                   onlineTopic = ''solar/'' @ fw_deviceId fw3 @ ''/online'';
                   fw4 = fw3\<lparr>client_calls :=
                              client_calls fw3 @ [Publish onlineTopic ''true'' True]\<rparr>
               in (True, sendStatus r fw4))
            else (True, fw1\<lparr>client_connected := False, mqttConnected := False\<rparr>)))"

text \<open>
  A run of the main loop, seen from the reconnect routine: each invocation comes with the
  wall-clock time (in milliseconds since boot, unbounded) of its two clock reads, the
  WiFi flag as the rest of the sketch has left it, and the broker's answer. The result is
  the list of times at which a connection attempt was made.
\<close>

record invocation =
  t_test :: nat
  t_store :: nat
  wifi_up :: bool
  accepts :: bool

definition readings_of :: "invocation \<Rightarrow> readings" where
  "readings_of e =
     \<lparr>millis_test = of_nat (t_test e), millis_store = of_nat (t_store e),
      broker_accepts = accepts e, millis_status = of_nat (t_store e),
      rssi = 0, free_heap_now = 0\<rparr>"

fun attempt_times :: "invocation list \<Rightarrow> firmware \<Rightarrow> nat list" where
  "attempt_times [] fw = []"
| "attempt_times (e # es) fw =
     (case reconnectMQTT (readings_of e) (fw\<lparr>wifiConnected := wifi_up e\<rparr>) of
        (attempted, fw') \<Rightarrow>
          (if attempted then [t_store e] else []) @ attempt_times es fw')"

text \<open>The clock reads of a run, in program order.\<close>

definition clock_reads :: "invocation list \<Rightarrow> nat list" where
  "clock_reads es = concat (map (\<lambda>e. [t_test e, t_store e]) es)"

text \<open>Consecutive times are at least 5000 ms apart.\<close>

fun spaced :: "nat list \<Rightarrow> bool" where
  "spaced [] = True"
| "spaced [a] = True"
| "spaced (a # b # ts) = (a + 5000 \<le> b \<and> spaced (b # ts))"

section \<open>Predicates on the store\<close>

text \<open>Every device row has at least one ownership edge.\<close>

definition every_device_has_edge :: "database \<Rightarrow> bool" where
  "every_device_has_edge d =
     (\<forall>dv \<in> set (devices d). \<exists>e \<in> set (user_devices d). ud_device_id e = d_id dv)"

text \<open>A device row exists for the device id.\<close>

definition device_exists :: "database \<Rightarrow> string \<Rightarrow> bool" where
  "device_exists d dev = (\<exists>dv \<in> set (devices d). device_id dv = dev)"


text \<open>
  The \<^verbatim>\<open>console.log\<close> of the status branch throws: the message carries a confirmation
  code that is truthy and whose conversion to a string throws.
\<close>

definition code_log_throws :: "json \<Rightarrow> bool" where
  "code_log_throws status =
     (case get_prop status ''confirmationCode'' of
        None \<Rightarrow> False
      | Some code \<Rightarrow> truthy (Some code) \<and> to_string_throws code)"

text \<open>
  A status message with typed telemetry: \<^verbatim>\<open>relayState\<close> is absent, \<^verbatim>\<open>null\<close> or a boolean,
  and each of \<^verbatim>\<open>wifiRSSI\<close>, \<^verbatim>\<open>uptime\<close> and \<^verbatim>\<open>freeHeap\<close> is absent, \<^verbatim>\<open>null\<close> or a number
  in the range of \<^verbatim>\<open>INTEGER\<close>.
\<close>

fun boolean_or_null :: "json option \<Rightarrow> bool" where
  "boolean_or_null None = True"
| "boolean_or_null (Some JNull) = True"
| "boolean_or_null (Some (JBool b)) = True"
| "boolean_or_null _ = False"

fun int32_or_null :: "json option \<Rightarrow> bool" where
  "int32_or_null None = True"
| "int32_or_null (Some JNull) = True"
| "int32_or_null (Some (JNum n)) = (- 2147483648 \<le> n \<and> n \<le> 2147483647)"
| "int32_or_null _ = False"

definition typed_telemetry :: "json \<Rightarrow> bool" where
  "typed_telemetry status =
     (boolean_or_null (get_prop status ''relayState'')
      \<and> int32_or_null (get_prop status ''wifiRSSI'')
      \<and> int32_or_null (get_prop status ''uptime'')
      \<and> int32_or_null (get_prop status ''freeHeap''))"

section \<open>States used as examples\<close>

text \<open>
  An empty store. Of the texts for an \<^verbatim>\<open>INTEGER\<close> column it reads \<^verbatim>\<open>42\<close>, of the texts
  for a \<^verbatim>\<open>BOOLEAN\<close> column \<^verbatim>\<open>true\<close> and \<^verbatim>\<open>false\<close>; the examples pass no other text.
\<close>

definition sample_int4in :: "string \<Rightarrow> int option" where
  "sample_int4in t = (if t = ''42'' then Some 42 else None)"

definition sample_boolin :: "string \<Rightarrow> bool option" where
  "sample_boolin t =
     (if t = ''true'' then Some True else if t = ''false'' then Some False else None)"

definition empty_db :: database where
  "empty_db =
     \<lparr>users = [], devices = [], user_devices = [], device_history = [],
      users_id_seq = 0, devices_id_seq = 0,
      int4in = sample_int4in, boolin = sample_boolin\<rparr>"

text \<open>A fresh server to which device \<open>D1\<close> has advertised the code 482913.\<close>

definition advertised :: server where
  "advertised =
     \<lparr>pool = empty_db, deviceStatuses = Map.empty,
      deviceConfirmationCodes = [''D1'' \<mapsto> JStr ''482913''], published = []\<rparr>"

text \<open>The same with two users, whose external ids are 7 and 8.\<close>

definition two_users :: "user_row list" where
  "two_users =
     [\<lparr>u_id = 1, telegram_id = 7, username = None\<rparr>,
      \<lparr>u_id = 2, telegram_id = 8, username = None\<rparr>]"

definition registered :: server where
  "registered = advertised\<lparr>pool := empty_db\<lparr>users := two_users, users_id_seq := 2\<rparr>\<rparr>"

text \<open>After user 7 has paired \<open>D1\<close>, and after user 8 has paired it too.\<close>

definition claimed :: server where
  "claimed =
     advertised\<lparr>pool :=
       \<lparr>users = two_users,
        devices = [\<lparr>d_id = 1, device_id = ''D1'', d_name = ''Solar Controller D1''\<rparr>],
        user_devices = [\<lparr>ud_user_id = 1, ud_device_id = 1, is_owner = True\<rparr>],
        device_history = [], users_id_seq = 2, devices_id_seq = 1,
        int4in = sample_int4in, boolin = sample_boolin\<rparr>\<rparr>"

definition joined :: server where
  "joined =
     claimed\<lparr>pool := (pool claimed)\<lparr>user_devices :=
       [\<lparr>ud_user_id = 1, ud_device_id = 1, is_owner = True\<rparr>,
        \<lparr>ud_user_id = 2, ud_device_id = 1, is_owner = False\<rparr>]\<rparr>\<rparr>"

text \<open>
  A status payload, \<^verbatim>\<open>{"uptime":42,"confirmationCode":"482913"}\<close>. The parser of the
  examples, further down, knows the payloads defined here and the payload \<^verbatim>\<open>null\<close>, and
  rejects every other text.
\<close>

definition sample_payload :: string where
  "sample_payload =
     ''{'' @ [CHR 0x22] @ ''uptime'' @ [CHR 0x22] @ '':42,'' @ [CHR 0x22]
     @ ''confirmationCode'' @ [CHR 0x22] @ '':'' @ [CHR 0x22] @ ''482913'' @ [CHR 0x22] @ ''}''"

definition sample_status :: json where
  "sample_status = JObj [(''uptime'', JNum 42), (''confirmationCode'', JStr ''482913'')]"

text \<open>
  A second status payload, \<^verbatim>\<open>{"uptime":3000000000}\<close>, whose uptime is beyond the range of
  \<^verbatim>\<open>INTEGER\<close>.
\<close>

definition overflow_payload :: string where
  "overflow_payload =
     ''{'' @ [CHR 0x22] @ ''uptime'' @ [CHR 0x22] @ '':3000000000}''"

definition overflow_status :: json where
  "overflow_status = JObj [(''uptime'', JNum 3000000000)]"

definition sample_parse :: "string \<Rightarrow> json option" where
  "sample_parse text =
     (if text = sample_payload then Some sample_status
      else if text = overflow_payload then Some overflow_status
      else if text = ''null'' then Some JNull
      else None)"

text \<open>The state after the pairing, with a presence record for \<open>D1\<close> last seen at 1000.\<close>

definition seen_record :: presence where
  "seen_record = \<lparr>telemetry = [''uptime'' \<mapsto> JNum 42], lastSeen = 1000, online = True\<rparr>"

definition seen :: server where
  "seen = claimed\<lparr>deviceStatuses := [''D1'' \<mapsto> seen_record]\<rparr>"

text \<open>
  The firmware after boot with WiFi up, a run of five invocations of the reconnect
  routine against a broker that refuses until the last one, and the firmware as the
  second invocation of that run leaves it.
\<close>

definition booted :: firmware where
  "booted =
     \<lparr>fw_deviceId = ''D1'', wifiConnected = True, mqttConnected = False,
      relayState = False, lastAttempt = 0, client_connected = False, client_calls = []\<rparr>"

definition sample_run :: "invocation list" where
  "sample_run =
     [\<lparr>t_test = 100, t_store = 100, wifi_up = True, accepts = False\<rparr>,
      \<lparr>t_test = 6000, t_store = 6001, wifi_up = True, accepts = False\<rparr>,
      \<lparr>t_test = 6010, t_store = 6010, wifi_up = True, accepts = False\<rparr>,
      \<lparr>t_test = 11000, t_store = 11000, wifi_up = True, accepts = False\<rparr>,
      \<lparr>t_test = 11001, t_store = 11001, wifi_up = True, accepts = True\<rparr>]"

definition retried :: firmware where
  "retried = booted\<lparr>lastAttempt := 6001, client_calls := [Connect ''D1'']\<rparr>"

section \<open>Lemmas on the store\<close>

lemma rollback_same: "rollback d d = d"
  by (simp add: rollback_def)

lemma rollback_tables:
  "users (rollback d0 d) = users d0" "devices (rollback d0 d) = devices d0"
  "user_devices (rollback d0 d) = user_devices d0"
  "device_history (rollback d0 d) = device_history d0"
  by (simp_all add: rollback_def)

lemma rollback_inv: "every_device_has_edge (rollback d0 d) = every_device_has_edge d0"
  by (simp add: every_device_has_edge_def rollback_tables)

lemma strict_eq_imp_eq: "strict_eq a b \<Longrightarrow> a = b"
  by (induction a b rule: strict_eq.induct) simp_all

lemma select_device_ids_empty: "(select_device_ids d dev = []) = (\<not> device_exists d dev)"
  by (auto simp: select_device_ids_def device_exists_def filter_empty_conv)

lemma count_edges_zero:
  "(count_edges d did = 0) = (\<forall>e \<in> set (user_devices d). ud_device_id e \<noteq> did)"
  by (auto simp: count_edges_def filter_empty_conv)

section \<open>Pairing with a wrong code\<close>

text \<open>
  C1. A pairing request for a device whose advertised code is absent from the
  confirmation registry, or differs from the submitted code, is answered with the
  invalid-code failure (status 400), and the server's state, with every row of the four
  tables, is what it was before the call.
\<close>

theorem pair_invalid_code:
  assumes "deviceConfirmationCodes s deviceId = None
           \<or> deviceConfirmationCodes s deviceId \<noteq> candidateCode"
  shows "add_device s userId deviceId candidateCode desiredName = (Failure InvalidCode, s)
         \<and> http_status InvalidCode = 400"
proof -
  have "\<not> truthy (deviceConfirmationCodes s deviceId)
        \<or> \<not> strict_eq (deviceConfirmationCodes s deviceId) candidateCode"
    using assms strict_eq_imp_eq by auto
  then show ?thesis
    by (simp add: add_device_def Let_def rollback_same)
qed

theorem pair_invalid_code_witness:
  "deviceConfirmationCodes advertised ''D1'' \<noteq> Some (JStr ''482910'')
   \<and> add_device advertised 7 ''D1'' (Some (JStr ''482910'')) None
       = (Failure InvalidCode, advertised)
   \<and> deviceConfirmationCodes advertised ''D2'' = None
   \<and> add_device advertised 7 ''D2'' (Some (JStr ''482913'')) None
       = (Failure InvalidCode, advertised)"
proof -
  have a: "deviceConfirmationCodes advertised ''D1'' \<noteq> Some (JStr ''482910'')"
    by (simp add: advertised_def)
  have b: "deviceConfirmationCodes advertised ''D2'' = None"
    by (simp add: advertised_def)
  show ?thesis
    using a b pair_invalid_code [of advertised "''D1''" "Some (JStr ''482910'')" 7 None]
      pair_invalid_code [of advertised "''D2''" "Some (JStr ''482913'')" 7 None]
    by simp
qed

section \<open>The ownership invariant\<close>

lemma insert_edge_inv:
  "every_device_has_edge d \<Longrightarrow> every_device_has_edge (insert_edge d uid did own)"
  by (auto simp: every_device_has_edge_def insert_edge_def)

lemma insert_device_edge_inv:
  "every_device_has_edge d \<Longrightarrow> insert_device d dev nm = (new_id, d1)
   \<Longrightarrow> every_device_has_edge (insert_edge d1 uid new_id own)"
  by (fastforce simp: every_device_has_edge_def insert_edge_def insert_device_def Let_def)

lemma insert_user_inv:
  "every_device_has_edge d \<Longrightarrow> every_device_has_edge (snd (insert_user d tid un))"
  by (simp add: every_device_has_edge_def insert_user_def Let_def)

lemma add_device_inv:
  assumes "every_device_has_edge (pool s)"
  shows "every_device_has_edge (pool (snd (add_device s userId deviceId code nm)))"
  using assms
  by (auto simp: add_device_def Let_def rollback_inv insert_edge_inv
      split: list.splits prod.splits dest: insert_device_edge_inv)

lemma share_device_inv:
  assumes "every_device_has_edge (pool s)"
  shows "every_device_has_edge (pool (snd (share_device s deviceId ownerId target)))"
  using assms insert_user_inv [of "pool s" target None]
  by (auto simp: share_device_def Let_def rollback_inv insert_edge_inv
      split: list.splits prod.splits)

lemma delete_edge_row_inv:
  assumes "every_device_has_edge d"
  shows "every_device_has_edge
           (if count_edges (delete_edge d uid did) did = 0
            then delete_device_row (delete_edge d uid did) did
            else delete_edge d uid did)"
proof (cases "count_edges (delete_edge d uid did) did = 0")
  case True
  then show ?thesis
    using assms
    by (fastforce simp: every_device_has_edge_def delete_device_row_def delete_edge_def)
next
  case False
  then obtain e where e: "e \<in> set (user_devices (delete_edge d uid did))" "ud_device_id e = did"
    by (auto simp: count_edges_def filter_empty_conv)
  show ?thesis
    unfolding every_device_has_edge_def
  proof (simp add: False, intro ballI)
    fix dv assume dv: "dv \<in> set (devices (delete_edge d uid did))"
    show "\<exists>e \<in> set (user_devices (delete_edge d uid did)). ud_device_id e = d_id dv"
    proof (cases "d_id dv = did")
      case True
      with e show ?thesis by auto
    next
      case False
      from dv have "dv \<in> set (devices d)" by (simp add: delete_edge_def)
      with assms obtain e' where "e' \<in> set (user_devices d)" "ud_device_id e' = d_id dv"
        by (auto simp: every_device_has_edge_def)
      with False show ?thesis by (auto simp: delete_edge_def)
    qed
  qed
qed

lemma delete_device_inv:
  assumes "every_device_has_edge (pool s)"
  shows "every_device_has_edge (pool (snd (delete_device s deviceId userId)))"
  using assms delete_edge_row_inv [OF assms]
  by (auto simp: delete_device_def Let_def rollback_inv split: list.splits option.splits)

lemma add_device_creates_with_edge:
  "devices (pool (snd (add_device s userId deviceId code nm))) = devices (pool s)
   \<or> (\<exists>row e. devices (pool (snd (add_device s userId deviceId code nm)))
                 = devices (pool s) @ [row]
        \<and> device_id row = deviceId
        \<and> user_devices (pool (snd (add_device s userId deviceId code nm)))
            = user_devices (pool s) @ [e]
        \<and> ud_device_id e = d_id row)"
  by (auto simp: add_device_def Let_def rollback_tables insert_device_def insert_edge_def
      split: list.splits prod.splits)

lemma delete_device_success:
  assumes "uid \<noteq> 0"
    and "select_user_ids (pool s) uid = userDbId # us"
    and "select_device_ids (pool s) deviceId = deviceDbId # ds"
  shows "fst (delete_device s deviceId (Some uid)) = Success
         \<and> user_devices (pool (snd (delete_device s deviceId (Some uid)))) =
             filter (\<lambda>e. \<not> (ud_user_id e = userDbId \<and> ud_device_id e = deviceDbId))
               (user_devices (pool s))
         \<and> devices (pool (snd (delete_device s deviceId (Some uid)))) =
             (if \<forall>e \<in> set (user_devices (pool s)).
                    ud_device_id e = deviceDbId \<longrightarrow> ud_user_id e = userDbId
              then filter (\<lambda>dv. d_id dv \<noteq> deviceDbId) (devices (pool s))
              else devices (pool s))"
proof (cases "count_edges (delete_edge (pool s) userDbId deviceDbId) deviceDbId = 0")
  case True
  then have all: "\<forall>e \<in> set (user_devices (pool s)).
                    ud_device_id e = deviceDbId \<longrightarrow> ud_user_id e = userDbId"
    by (auto simp: count_edges_zero delete_edge_def)
  then have "filter (\<lambda>e. ud_device_id e \<noteq> deviceDbId)
               (filter (\<lambda>e. \<not> (ud_user_id e = userDbId \<and> ud_device_id e = deviceDbId))
                  (user_devices (pool s)))
             = filter (\<lambda>e. \<not> (ud_user_id e = userDbId \<and> ud_device_id e = deviceDbId))
                  (user_devices (pool s))"
    by (auto intro: filter_cong)
  with True all assms show ?thesis
    by (simp add: delete_device_def Let_def delete_device_row_def delete_edge_def)
next
  case False
  then have "\<not> (\<forall>e \<in> set (user_devices (pool s)).
                    ud_device_id e = deviceDbId \<longrightarrow> ud_user_id e = userDbId)"
    by (auto simp: count_edges_zero delete_edge_def)
  with False assms show ?thesis
    by (auto simp: delete_device_def Let_def delete_edge_def)
qed

text \<open>
  C2. Pairing, sharing and unpairing each keep the invariant that every device row has
  at least one ownership edge: a state that satisfies it before the call satisfies it
  after the call, whatever the arguments and whatever the answer. Pairing either leaves
  the device table as it was or appends one device row together with one edge that
  points to it, in the one transaction. Unpairing, once the caller and the device are
  resolved, deletes exactly the caller's edge for the device, and deletes the device row
  exactly when no edge of another user remains for it.
\<close>

theorem ownership_invariant:
  assumes "every_device_has_edge (pool s)"
  shows "every_device_has_edge (pool (snd (add_device s userId deviceId code nm)))
       \<and> every_device_has_edge (pool (snd (share_device s deviceId ownerId target)))
       \<and> every_device_has_edge (pool (snd (delete_device s deviceId callerId)))
       \<and> (devices (pool (snd (add_device s userId deviceId code nm))) = devices (pool s)
          \<or> (\<exists>row e. devices (pool (snd (add_device s userId deviceId code nm)))
                        = devices (pool s) @ [row]
               \<and> device_id row = deviceId
               \<and> user_devices (pool (snd (add_device s userId deviceId code nm)))
                   = user_devices (pool s) @ [e]
               \<and> ud_device_id e = d_id row))
       \<and> (\<forall>uid userDbId us deviceDbId ds.
            uid \<noteq> 0 \<and> select_user_ids (pool s) uid = userDbId # us
            \<and> select_device_ids (pool s) deviceId = deviceDbId # ds
            \<longrightarrow> fst (delete_device s deviceId (Some uid)) = Success
              \<and> user_devices (pool (snd (delete_device s deviceId (Some uid)))) =
                  filter (\<lambda>e. \<not> (ud_user_id e = userDbId \<and> ud_device_id e = deviceDbId))
                    (user_devices (pool s))
              \<and> devices (pool (snd (delete_device s deviceId (Some uid)))) =
                  (if \<forall>e \<in> set (user_devices (pool s)).
                         ud_device_id e = deviceDbId \<longrightarrow> ud_user_id e = userDbId
                   then filter (\<lambda>dv. d_id dv \<noteq> deviceDbId) (devices (pool s))
                   else devices (pool s)))"
  using add_device_inv [OF assms] share_device_inv [OF assms] delete_device_inv [OF assms]
    add_device_creates_with_edge [of s userId deviceId code nm]
    delete_device_success [of _ s _ _ deviceId]
  by blast

text \<open>
  The invariant holds in the state where user 7 owns \<open>D1\<close> and user 8 has joined; it
  holds after a further pairing, a share and an unpairing there. In the state where user
  7 is the only one linked, the unpairing of user 7 removes the edge and the device row.
\<close>

theorem ownership_invariant_witness:
  "every_device_has_edge (pool joined)
   \<and> every_device_has_edge
       (pool (snd (add_device joined 8 ''D1'' (Some (JStr ''482913'')) None)))
   \<and> every_device_has_edge (pool (snd (share_device joined ''D1'' 7 9)))
   \<and> every_device_has_edge (pool (snd (delete_device joined ''D1'' (Some 7))))
   \<and> devices (pool (snd (delete_device joined ''D1'' (Some 7)))) = devices (pool joined)
   \<and> every_device_has_edge (pool claimed)
   \<and> fst (delete_device claimed ''D1'' (Some 7)) = Success
   \<and> user_devices (pool (snd (delete_device claimed ''D1'' (Some 7)))) = []
   \<and> devices (pool (snd (delete_device claimed ''D1'' (Some 7)))) = []"
proof -
  have j: "every_device_has_edge (pool joined)"
    by (simp add: every_device_has_edge_def joined_def claimed_def)
  have c: "every_device_has_edge (pool claimed)"
    by (simp add: every_device_has_edge_def claimed_def)
  have uj: "select_user_ids (pool joined) 7 = [1]"
    and dj: "select_device_ids (pool joined) ''D1'' = [1]"
    by (simp_all add: select_user_ids_def select_device_ids_def joined_def claimed_def
        two_users_def)
  have uc: "select_user_ids (pool claimed) 7 = [1]"
    and dc: "select_device_ids (pool claimed) ''D1'' = [1]"
    by (simp_all add: select_user_ids_def select_device_ids_def claimed_def two_users_def)
  have ej: "user_devices (pool joined) =
              [\<lparr>ud_user_id = 1, ud_device_id = 1, is_owner = True\<rparr>,
               \<lparr>ud_user_id = 2, ud_device_id = 1, is_owner = False\<rparr>]"
    by (simp add: joined_def)
  have ec: "user_devices (pool claimed) =
              [\<lparr>ud_user_id = 1, ud_device_id = 1, is_owner = True\<rparr>]"
    and vc: "devices (pool claimed) =
              [\<lparr>d_id = 1, device_id = ''D1'', d_name = ''Solar Controller D1''\<rparr>]"
    by (simp_all add: claimed_def)
  note at_joined =
    ownership_invariant [OF j, of 8 "''D1''" "Some (JStr ''482913'')" None 7 9 "Some 7"]
  note at_claimed =
    ownership_invariant [OF c, of 7 "''D1''" "Some (JStr ''482913'')" None 7 9 "Some 7"]
  from at_joined have
    "devices (pool (snd (delete_device joined ''D1'' (Some 7)))) = devices (pool joined)"
    using uj dj ej by simp
  moreover from at_claimed have
    "fst (delete_device claimed ''D1'' (Some 7)) = Success
     \<and> user_devices (pool (snd (delete_device claimed ''D1'' (Some 7)))) = []
     \<and> devices (pool (snd (delete_device claimed ''D1'' (Some 7)))) = []"
    using uc dc ec vc by simp
  ultimately show ?thesis
    using j c at_joined by simp
qed


section \<open>Who becomes owner\<close>

lemma add_device_success:
  assumes "add_device s userId deviceId code nm = (Device_reply r, s')"
  shows "\<exists>e. user_devices (pool s') = user_devices (pool s) @ [e]
           \<and> (if is_owner e
               then \<not> device_exists (pool s) deviceId
                    \<and> (\<exists>row. devices (pool s') = devices (pool s) @ [row]
                          \<and> device_id row = deviceId \<and> d_id row = ud_device_id e)
               else device_exists (pool s) deviceId \<and> devices (pool s') = devices (pool s))"
proof -
  from assms obtain userDbId us where
    u: "select_user_ids (pool s) userId = userDbId # us"
    and ok: "truthy (deviceConfirmationCodes s deviceId)"
            "strict_eq (deviceConfirmationCodes s deviceId) code"
    by (auto simp: add_device_def Let_def split: if_splits list.splits)
  show ?thesis
  proof (cases "select_device_ids (pool s) deviceId")
    case Nil
    let ?e = "\<lparr>ud_user_id = userDbId, ud_device_id = Suc (devices_id_seq (pool s)),
               is_owner = True\<rparr>"
    from Nil have ne: "\<not> device_exists (pool s) deviceId"
      by (simp add: select_device_ids_empty)
    from assms u ok Nil have
      "user_devices (pool s') = user_devices (pool s) @ [?e]"
      "devices (pool s') = devices (pool s)
          @ [\<lparr>d_id = Suc (devices_id_seq (pool s)), device_id = deviceId,
              d_name = default_name nm deviceId\<rparr>]"
      by (auto simp: add_device_def Let_def insert_device_def insert_edge_def
          split: if_splits)
    with ne show ?thesis by (intro exI [of _ ?e]) simp
  next
    case (Cons deviceDbId ds)
    let ?e = "\<lparr>ud_user_id = userDbId, ud_device_id = deviceDbId, is_owner = False\<rparr>"
    from Cons have ex: "device_exists (pool s) deviceId"
      using select_device_ids_empty [of "pool s" deviceId] by simp
    from assms u ok Cons have
      "user_devices (pool s') = user_devices (pool s) @ [?e]"
      "devices (pool s') = devices (pool s)"
      by (auto simp: add_device_def Let_def insert_edge_def split: if_splits)
    with ex show ?thesis by (intro exI [of _ ?e]) simp
  qed
qed

lemma share_device_success:
  assumes "share_device s deviceId ownerId target = (Success, s')"
  shows "\<exists>e. user_devices (pool s') = user_devices (pool s) @ [e] \<and> \<not> is_owner e"
proof -
  from assms have
    "user_devices (pool s') = user_devices (pool s) @ [last (user_devices (pool s'))]
     \<and> \<not> is_owner (last (user_devices (pool s')))"
    by (auto simp: share_device_def Let_def insert_user_def insert_edge_def
        split: list.splits prod.splits if_splits)
  then show ?thesis by blast
qed

text \<open>
  C3. A pairing that succeeds appends exactly one ownership edge, and the edge is marked
  owner exactly when the call itself created the device row: if it is marked owner, no
  row for the device id existed before and the call appended one, to which the edge
  points; if it is not, a row existed and the device table is unchanged. A share that
  succeeds appends exactly one edge, which is not marked owner.
\<close>

theorem owner_flag_is_new_device:
  "(add_device s userId deviceId code nm = (Device_reply r, s') \<longrightarrow>
      (\<exists>e. user_devices (pool s') = user_devices (pool s) @ [e]
         \<and> (if is_owner e
             then \<not> device_exists (pool s) deviceId
                  \<and> (\<exists>row. devices (pool s') = devices (pool s) @ [row]
                        \<and> device_id row = deviceId \<and> d_id row = ud_device_id e)
             else device_exists (pool s) deviceId
                  \<and> devices (pool s') = devices (pool s))))
   \<and> (share_device t sharedId ownerId target = (Success, t') \<longrightarrow>
        (\<exists>e. user_devices (pool t') = user_devices (pool t) @ [e] \<and> \<not> is_owner e))"
  using add_device_success [of s userId deviceId code nm r s']
    share_device_success [of t sharedId ownerId target t']
  by blast

text \<open>
  User 7 pairs the new device \<open>D1\<close> and becomes owner; user 8 pairs the device that now
  exists and does not; user 7 shares it with the unseen user 9, who does not either.
\<close>

theorem owner_flag_is_new_device_witness:
  "add_device registered 7 ''D1'' (Some (JStr ''482913'')) None
     = (Device_reply
          (Some (\<lparr>d_id = 1, device_id = ''D1'', d_name = ''Solar Controller D1''\<rparr>, True)),
        claimed)
   \<and> user_devices (pool claimed)
       = user_devices (pool registered)
         @ [\<lparr>ud_user_id = 1, ud_device_id = 1, is_owner = True\<rparr>]
   \<and> add_device claimed 8 ''D1'' (Some (JStr ''482913'')) None
     = (Device_reply
          (Some (\<lparr>d_id = 1, device_id = ''D1'', d_name = ''Solar Controller D1''\<rparr>, False)),
        joined)
   \<and> user_devices (pool joined)
       = user_devices (pool claimed)
         @ [\<lparr>ud_user_id = 2, ud_device_id = 1, is_owner = False\<rparr>]
   \<and> fst (share_device claimed ''D1'' 7 9) = Success
   \<and> (\<exists>e. user_devices (pool (snd (share_device claimed ''D1'' 7 9)))
             = user_devices (pool claimed) @ [e] \<and> \<not> is_owner e)"
proof -
  have p1: "add_device registered 7 ''D1'' (Some (JStr ''482913'')) None
     = (Device_reply
          (Some (\<lparr>d_id = 1, device_id = ''D1'', d_name = ''Solar Controller D1''\<rparr>, True)),
        claimed)"
    by (simp add: add_device_def bigint_def registered_def claimed_def advertised_def empty_db_def
        two_users_def select_user_ids_def select_device_ids_def select_access_def
        insert_device_def insert_edge_def full_device_def default_name_def Let_def)
  have p2: "add_device claimed 8 ''D1'' (Some (JStr ''482913'')) None
     = (Device_reply
          (Some (\<lparr>d_id = 1, device_id = ''D1'', d_name = ''Solar Controller D1''\<rparr>, False)),
        joined)"
    by (simp add: add_device_def bigint_def joined_def claimed_def advertised_def
        two_users_def select_user_ids_def select_device_ids_def select_access_def
        insert_edge_def full_device_def Let_def)
  have p3: "share_device claimed ''D1'' 7 9
              = (Success, snd (share_device claimed ''D1'' 7 9))"
    by (simp add: share_device_def bigint_def text_param_def claimed_def advertised_def two_users_def
        owner_result_def select_user_ids_def select_device_ids_def select_access_def
        insert_user_def insert_edge_def Let_def)
  have e1: "user_devices (pool claimed)
       = user_devices (pool registered)
         @ [\<lparr>ud_user_id = 1, ud_device_id = 1, is_owner = True\<rparr>]"
    by (simp add: claimed_def registered_def empty_db_def)
  have e2: "user_devices (pool joined)
       = user_devices (pool claimed)
         @ [\<lparr>ud_user_id = 2, ud_device_id = 1, is_owner = False\<rparr>]"
    by (simp add: joined_def claimed_def)
  from p3 have p3': "fst (share_device claimed ''D1'' 7 9) = Success"
    by (metis fst_conv)
  from owner_flag_is_new_device
         [of registered 7 "''D1''" "Some (JStr ''482913'')" None _ claimed
             claimed "''D1''" 7 9 "snd (share_device claimed ''D1'' 7 9)"] p1 p3
  have "\<exists>e. user_devices (pool (snd (share_device claimed ''D1'' 7 9)))
             = user_devices (pool claimed) @ [e] \<and> \<not> is_owner e"
    by blast
  with p1 p2 p3' e1 e2 show ?thesis by blast
qed

section \<open>Pairing needs the user row\<close>

lemma add_device_users:
  "users (pool (snd (add_device s userId deviceId code nm))) = users (pool s)"
  by (simp add: add_device_def Let_def rollback_def insert_device_def insert_edge_def
      split: list.splits prod.splits)

lemma add_device_unknown_user:
  assumes "truthy (deviceConfirmationCodes s deviceId)"
    and "strict_eq (deviceConfirmationCodes s deviceId) candidateCode"
    and "bigint userId"
    and "\<forall>u \<in> set (users (pool s)). telegram_id u \<noteq> userId"
  shows "add_device s userId deviceId candidateCode desiredName = (Failure UserNotFound, s)"
proof -
  have "filter (\<lambda>u. telegram_id u = userId) (users (pool s)) = []"
    using assms(4) by (simp add: filter_empty_conv)
  then show ?thesis
    using assms(1,2,3)
    by (simp add: add_device_def Let_def rollback_same select_user_ids_def)
qed

text \<open>
  C4, as the claim states it, fails: with the advertised code submitted and no user row
  for the caller, whose id 7 the column admits, the pairing is answered with the
  user-not-found failure and nothing is stored; the same request succeeds in the state
  that differs only by the two user rows.
\<close>

theorem pair_creates_user_counterexample:
  "strict_eq (deviceConfirmationCodes advertised ''D1'') (Some (JStr ''482913''))
   \<and> bigint 7
   \<and> users (pool advertised) = []
   \<and> add_device advertised 7 ''D1'' (Some (JStr ''482913'')) None
       = (Failure UserNotFound, advertised)
   \<and> users (pool registered) = two_users
   \<and> add_device registered 7 ''D1'' (Some (JStr ''482913'')) None
       = (Device_reply
            (Some (\<lparr>d_id = 1, device_id = ''D1'', d_name = ''Solar Controller D1''\<rparr>,
                   True)),
          claimed)"
  by (simp add: add_device_def bigint_def registered_def claimed_def advertised_def
      empty_db_def two_users_def select_user_ids_def select_device_ids_def
      select_access_def insert_device_def insert_edge_def full_device_def
      default_name_def rollback_def Let_def)

text \<open>
  C4, amended. Pairing resolves the user row and never creates it. When the submitted
  code matches the advertised one, the caller's external id is one the id column admits,
  and no user row has that id, the pairing is answered with the user-not-found failure
  (status 404) and the server's state is unchanged. No pairing, whatever its arguments
  and its answer, changes the user table.
\<close>

theorem pair_requires_user:
  "(truthy (deviceConfirmationCodes s deviceId)
      \<and> strict_eq (deviceConfirmationCodes s deviceId) candidateCode
      \<and> bigint userId
      \<and> (\<forall>u \<in> set (users (pool s)). telegram_id u \<noteq> userId)
      \<longrightarrow> add_device s userId deviceId candidateCode desiredName
            = (Failure UserNotFound, s))
   \<and> http_status UserNotFound = 404
   \<and> users (pool (snd (add_device s userId deviceId candidateCode desiredName)))
       = users (pool s)"
  using add_device_unknown_user [of s deviceId candidateCode userId desiredName]
    add_device_users [of s userId deviceId candidateCode desiredName]
  by simp

theorem pair_requires_user_witness:
  "truthy (deviceConfirmationCodes advertised ''D1'')
   \<and> strict_eq (deviceConfirmationCodes advertised ''D1'') (Some (JStr ''482913''))
   \<and> bigint 7
   \<and> users (pool advertised) = []
   \<and> add_device advertised 7 ''D1'' (Some (JStr ''482913'')) None
       = (Failure UserNotFound, advertised)
   \<and> users (pool (snd (add_device advertised 7 ''D1'' (Some (JStr ''482913'')) None))) = []"
proof -
  have a: "truthy (deviceConfirmationCodes advertised ''D1'')"
    and b: "strict_eq (deviceConfirmationCodes advertised ''D1'') (Some (JStr ''482913''))"
    and c: "users (pool advertised) = []"
    and d: "bigint 7"
    by (simp_all add: advertised_def empty_db_def bigint_def)
  show ?thesis
    using a b c d
      pair_requires_user [of advertised "''D1''" "Some (JStr ''482913'')" 7 None]
    by simp
qed

section \<open>Sharing is for the owner\<close>




section \<open>Relay control\<close>

text \<open>
  C8. For every server state, device id, command and state value, the control route
  appends one publication to the device's command topic, carrying the command payload,
  changes nothing else, and answers success: it reads neither the user nor the device nor
  the edge table, and no input makes it answer with a failure.
\<close>

theorem control_publishes:
  "control s deviceId command state =
     (Success,
      s\<lparr>published := published s
           @ [(''solar/'' @ deviceId @ ''/command'', command_payload command state)]\<rparr>)
   \<and> (\<forall>f. fst (control s deviceId command state) \<noteq> Failure f)"
  by (simp add: control_def)

text \<open>With no user, no device and no edge stored, a relay command for \<open>D9\<close> goes out.\<close>

theorem control_publishes_witness:
  "users (pool advertised) = [] \<and> devices (pool advertised) = []
   \<and> user_devices (pool advertised) = []
   \<and> control advertised ''D9'' (Some (JStr ''relay'')) (Some (JBool True)) =
       (Success,
        advertised\<lparr>published :=
          [(''solar/D9/command'',
            JObj [(''command'', JStr ''relay''), (''state'', JBool True)])]\<rparr>)"
proof -
  have "published advertised = []"
    and "users (pool advertised) = []" and "devices (pool advertised) = []"
    and "user_devices (pool advertised) = []"
    by (simp_all add: advertised_def empty_db_def)
  then show ?thesis
    using control_publishes [of advertised "''D9''" "Some (JStr ''relay'')" "Some (JBool True)"]
    by (simp add: command_payload_def)
qed


section \<open>Bus messages\<close>

lemma split_on_plain: "c \<notin> set a \<Longrightarrow> split_on c a = [a]"
  by (induction a) auto

lemma split_on_sep: "c \<notin> set a \<Longrightarrow> split_on c (a @ c # b) = a # split_on c b"
  by (induction a) auto

lemma topic_parts:
  assumes "CHR ''/'' \<notin> set deviceId" and "CHR ''/'' \<notin> set kind"
  shows "split_on CHR ''/'' (''solar/'' @ deviceId @ ''/'' @ kind) = [''solar'', deviceId, kind]"
proof -
  have "''solar/'' @ deviceId @ ''/'' @ kind
          = ''solar'' @ CHR ''/'' # (deviceId @ CHR ''/'' # kind)"
    by simp
  moreover have "split_on CHR ''/'' (''solar'' @ CHR ''/'' # (deviceId @ CHR ''/'' # kind))
                   = ''solar'' # split_on CHR ''/'' (deviceId @ CHR ''/'' # kind)"
    by (rule split_on_sep) simp
  moreover have "split_on CHR ''/'' (deviceId @ CHR ''/'' # kind)
                   = deviceId # split_on CHR ''/'' kind"
    by (rule split_on_sep [OF assms(1)])
  moreover have "split_on CHR ''/'' kind = [kind]"
    by (rule split_on_plain [OF assms(2)])
  ultimately show ?thesis by simp
qed

lemma status_message:
  assumes "CHR ''/'' \<notin> set deviceId"
    and "JSON_parse message = Some status" and "status \<noteq> JNull"
    and "\<not> code_log_throws status"
  shows "on_message JSON_parse now s (''solar/'' @ deviceId @ ''/status'') message =
     (Handled,
      (let s1 = (case get_prop status ''confirmationCode'' of
                   None \<Rightarrow> s
                 | Some code \<Rightarrow>
                     if truthy (Some code)
                     then s\<lparr>deviceConfirmationCodes :=
                             (deviceConfirmationCodes s)(deviceId \<mapsto> code)\<rparr>
                     else s);
           s2 = s1\<lparr>deviceStatuses := (deviceStatuses s1)(deviceId \<mapsto>
                    \<lparr>telemetry = spread_telemetry status, lastSeen = now, online = True\<rparr>)\<rparr>
       in if select_device_ids (pool s2) deviceId \<noteq> []
          then s2\<lparr>pool := saveDeviceStatus (pool s2) deviceId status\<rparr>
          else s2))"
proof -
  have "split_on CHR ''/'' (''solar/'' @ deviceId @ ''/'' @ ''status'')
          = [''solar'', deviceId, ''status'']"
    using assms(1) by (intro topic_parts) simp_all
  then show ?thesis
    using assms(2,3,4)
    by (auto simp: on_message_def code_log_throws_def Let_def split: option.splits)
qed

lemma status_message_dropped:
  assumes "CHR ''/'' \<notin> set deviceId"
    and "JSON_parse message = None \<or> JSON_parse message = Some JNull"
  shows "on_message JSON_parse now s (''solar/'' @ deviceId @ ''/status'') message
           = (Dropped, s)"
proof -
  have "split_on CHR ''/'' (''solar/'' @ deviceId @ ''/'' @ ''status'')
          = [''solar'', deviceId, ''status'']"
    using assms(1) by (intro topic_parts) simp_all
  then show ?thesis
    using assms(2) by (auto simp: on_message_def)
qed

text \<open>
  A status message whose confirmation code cannot be printed is dropped after the
  registry has taken the code: neither the presence record nor the history is touched.
\<close>

lemma status_message_log_throws:
  assumes "CHR ''/'' \<notin> set deviceId"
    and "JSON_parse message = Some status" and "status \<noteq> JNull"
    and "get_prop status ''confirmationCode'' = Some code"
    and "truthy (Some code)" and "to_string_throws code"
  shows "on_message JSON_parse now s (''solar/'' @ deviceId @ ''/status'') message
           = (Dropped,
              s\<lparr>deviceConfirmationCodes := (deviceConfirmationCodes s)(deviceId \<mapsto> code)\<rparr>)"
proof -
  have "split_on CHR ''/'' (''solar/'' @ deviceId @ ''/'' @ ''status'')
          = [''solar'', deviceId, ''status'']"
    using assms(1) by (intro topic_parts) simp_all
  then show ?thesis
    using assms(2-6) by (simp add: on_message_def)
qed

lemma status_message_presence:
  assumes "CHR ''/'' \<notin> set deviceId"
    and "JSON_parse message = Some status" and "status \<noteq> JNull"
    and "\<not> code_log_throws status"
  shows "deviceStatuses (snd (on_message JSON_parse now s
                                 (''solar/'' @ deviceId @ ''/status'') message)) deviceId
         = Some \<lparr>telemetry = spread_telemetry status, lastSeen = now, online = True\<rparr>"
  using status_message [of deviceId JSON_parse message status now s] assms
  by (simp add: Let_def split: option.splits)

lemma status_message_pool:
  assumes "CHR ''/'' \<notin> set deviceId"
    and "JSON_parse message = Some status" and "status \<noteq> JNull"
    and "\<not> code_log_throws status"
  shows "pool (snd (on_message JSON_parse now s
                      (''solar/'' @ deviceId @ ''/status'') message))
         = (if device_exists (pool s) deviceId
            then saveDeviceStatus (pool s) deviceId status
            else pool s)"
  using status_message [of deviceId JSON_parse message status now s] assms
  by (simp add: Let_def select_device_ids_empty split: option.splits)

lemma boolean_or_null_taken:
  "boolean_or_null v \<Longrightarrow> boolean_column rd v \<noteq> None"
  by (induction v rule: boolean_or_null.induct) simp_all

lemma int32_or_null_taken:
  "int32_or_null v \<Longrightarrow> integer_column rd v \<noteq> None"
  by (induction v rule: int32_or_null.induct) simp_all

lemma typed_telemetry_taken:
  assumes "typed_telemetry status"
  shows "history_values d deviceId status \<noteq> None"
proof -
  from assms obtain relay signal up heap where
    "boolean_column (boolin d) (get_prop status ''relayState'') = Some relay"
    "integer_column (int4in d) (get_prop status ''wifiRSSI'') = Some signal"
    "integer_column (int4in d) (get_prop status ''uptime'') = Some up"
    "integer_column (int4in d) (get_prop status ''freeHeap'') = Some heap"
    using boolean_or_null_taken [of "get_prop status ''relayState''" "boolin d"]
      int32_or_null_taken [of "get_prop status ''wifiRSSI''" "int4in d"]
      int32_or_null_taken [of "get_prop status ''uptime''" "int4in d"]
      int32_or_null_taken [of "get_prop status ''freeHeap''" "int4in d"]
    by (auto simp: typed_telemetry_def)
  then show ?thesis by (simp add: history_values_def)
qed

lemma history_values_device: "history_values d deviceId status = Some row \<Longrightarrow> h_device_id row = deviceId"
  by (auto simp: history_values_def split: option.splits)

text \<open>
  C6, as the claim states it, fails: device \<open>D1\<close> has a row, and the status message with
  the uptime 3000000000 is processed (the handler runs to its end and sets the presence
  record), yet the history table is what it was, because the \<^verbatim>\<open>INTEGER\<close> column
  \<^verbatim>\<open>uptime\<close> does not take the value and \<^verbatim>\<open>saveDeviceStatus\<close> swallows the rejection.
\<close>

theorem status_history_counterexample:
  "device_exists (pool claimed) ''D1''
   \<and> sample_parse overflow_payload = Some overflow_status
   \<and> fst (on_message sample_parse 1000 claimed ''solar/D1/status'' overflow_payload) = Handled
   \<and> deviceStatuses (snd (on_message sample_parse 1000 claimed
                             ''solar/D1/status'' overflow_payload)) ''D1''
       = Some \<lparr>telemetry = spread_telemetry overflow_status, lastSeen = 1000, online = True\<rparr>
   \<and> device_history (pool claimed) = []
   \<and> device_history (pool (snd (on_message sample_parse 1000 claimed
                                   ''solar/D1/status'' overflow_payload))) = []"
proof -
  have d: "CHR ''/'' \<notin> set ''D1''" by simp
  have p: "sample_parse overflow_payload = Some overflow_status"
    by (simp add: sample_parse_def overflow_payload_def sample_payload_def)
  have n: "overflow_status \<noteq> JNull" by (simp add: overflow_status_def)
  have l: "\<not> code_log_throws overflow_status"
    by (simp add: code_log_throws_def overflow_status_def)
  have c: "device_exists (pool claimed) ''D1''"
    by (simp add: device_exists_def claimed_def)
  have h: "device_history (pool claimed) = []"
    by (simp add: claimed_def)
  have v: "history_values (pool claimed) ''D1'' overflow_status = None"
    by (simp add: history_values_def overflow_status_def)
  have t: "''solar/'' @ ''D1'' @ ''/status'' = ''solar/D1/status''" by simp
  from status_message [of "''D1''" sample_parse overflow_payload overflow_status 1000 claimed]
    d p n l have
    "fst (on_message sample_parse 1000 claimed ''solar/D1/status'' overflow_payload) = Handled"
    by (simp add: t)
  moreover from
    status_message_presence [of "''D1''" sample_parse overflow_payload overflow_status 1000 claimed]
    d p n l have
    "deviceStatuses (snd (on_message sample_parse 1000 claimed
                             ''solar/D1/status'' overflow_payload)) ''D1''
       = Some \<lparr>telemetry = spread_telemetry overflow_status, lastSeen = 1000, online = True\<rparr>"
    by (simp add: t)
  moreover from
    status_message_pool [of "''D1''" sample_parse overflow_payload overflow_status 1000 claimed]
    d p n l c v h have
    "device_history (pool (snd (on_message sample_parse 1000 claimed
                                   ''solar/D1/status'' overflow_payload))) = []"
    by (simp add: t saveDeviceStatus_def)
  ultimately show ?thesis using c p h by simp
qed

text \<open>
  C6, amended. A status message is processed when its payload parses to a value other
  than \<^verbatim>\<open>null\<close> and the handler does not throw while it logs the confirmation code. For
  every processed status message on the topic of a device id, the handler runs to its end
  and the presence record of that id is replaced by the one built from the message. If no
  device row exists for the id, the history table is what it was. If a device row exists,
  one insert is made: when the store takes the message's \<^verbatim>\<open>relayState\<close>, \<^verbatim>\<open>wifiRSSI\<close>,
  \<^verbatim>\<open>uptime\<close> and \<^verbatim>\<open>freeHeap\<close> for their columns, the history table is what it was followed
  by exactly one row, the row of this message; when the store rejects one of them, the
  rejection is swallowed and the history table is what it was. The store takes them
  whenever the telemetry is typed: each value absent, \<^verbatim>\<open>null\<close>, a boolean for
  \<^verbatim>\<open>relayState\<close>, a number in the range of \<^verbatim>\<open>INTEGER\<close> for the others. The other three
  tables are unchanged in every case.
\<close>

theorem status_history:
  assumes "CHR ''/'' \<notin> set deviceId"
    and "JSON_parse message = Some status" and "status \<noteq> JNull"
    and "\<not> code_log_throws status"
    and "on_message JSON_parse now s (''solar/'' @ deviceId @ ''/status'') message = (out, s')"
  shows "out = Handled
       \<and> deviceStatuses s' deviceId
           = Some \<lparr>telemetry = spread_telemetry status, lastSeen = now, online = True\<rparr>
       \<and> device_history (pool s') =
           device_history (pool s)
           @ (if device_exists (pool s) deviceId
              then (case history_values (pool s) deviceId status of
                      None \<Rightarrow> []
                    | Some row \<Rightarrow> [row])
              else [])
       \<and> (typed_telemetry status \<longrightarrow>
            (\<exists>row. history_values (pool s) deviceId status = Some row
                   \<and> h_device_id row = deviceId))
       \<and> users (pool s') = users (pool s)
       \<and> devices (pool s') = devices (pool s)
       \<and> user_devices (pool s') = user_devices (pool s)"
proof -
  from assms(5) have s': "s' = snd (on_message JSON_parse now s
                                     (''solar/'' @ deviceId @ ''/status'') message)"
    and out: "out = fst (on_message JSON_parse now s
                           (''solar/'' @ deviceId @ ''/status'') message)"
    by simp_all
  have "out = Handled"
    unfolding out
    using status_message [of deviceId JSON_parse message status now s] assms(1-4) by simp
  moreover have "deviceStatuses s' deviceId
           = Some \<lparr>telemetry = spread_telemetry status, lastSeen = now, online = True\<rparr>"
    unfolding s'
    using status_message_presence [of deviceId JSON_parse message status now s] assms(1-4)
    by simp
  moreover have "pool s' = (if device_exists (pool s) deviceId
                            then saveDeviceStatus (pool s) deviceId status
                            else pool s)"
    unfolding s'
    using status_message_pool [of deviceId JSON_parse message status now s] assms(1-4)
    by simp
  moreover have "typed_telemetry status \<longrightarrow>
            (\<exists>row. history_values (pool s) deviceId status = Some row
                   \<and> h_device_id row = deviceId)"
    using typed_telemetry_taken [of status "pool s" deviceId]
      history_values_device [of "pool s" deviceId status]
    by auto
  ultimately show ?thesis
    by (simp add: saveDeviceStatus_def split: option.splits)
qed

text \<open>
  The sample status message for \<open>D1\<close> at time 1000, with typed telemetry: before the
  pairing it leaves the history empty, after the pairing it writes one row; both times
  \<open>D1\<close> is online. The message with the uptime 3000000000 sets \<open>D1\<close> online after the
  pairing too and writes no row.
\<close>

theorem status_history_witness:
  "sample_parse sample_payload = Some sample_status
   \<and> typed_telemetry sample_status
   \<and> \<not> device_exists (pool registered) ''D1''
   \<and> device_history (pool (snd (on_message sample_parse 1000 registered
                                   ''solar/D1/status'' sample_payload))) = []
   \<and> deviceStatuses (snd (on_message sample_parse 1000 registered
                             ''solar/D1/status'' sample_payload)) ''D1''
       = Some \<lparr>telemetry = spread_telemetry sample_status, lastSeen = 1000, online = True\<rparr>
   \<and> device_exists (pool claimed) ''D1''
   \<and> device_history (pool (snd (on_message sample_parse 1000 claimed
                                   ''solar/D1/status'' sample_payload)))
       = [\<lparr>h_device_id = ''D1'', relay_state = None, wifi_rssi = None,
           uptime = Some 42, free_heap = None\<rparr>]
   \<and> deviceStatuses (snd (on_message sample_parse 1000 claimed
                             ''solar/D1/status'' sample_payload)) ''D1''
       = Some \<lparr>telemetry = spread_telemetry sample_status, lastSeen = 1000, online = True\<rparr>
   \<and> sample_parse overflow_payload = Some overflow_status
   \<and> history_values (pool claimed) ''D1'' overflow_status = None
   \<and> device_history (pool (snd (on_message sample_parse 1000 claimed
                                   ''solar/D1/status'' overflow_payload))) = []"
proof -
  have d: "CHR ''/'' \<notin> set ''D1''" by simp
  have p: "sample_parse sample_payload = Some sample_status"
    by (simp add: sample_parse_def)
  have p': "sample_parse overflow_payload = Some overflow_status"
    by (simp add: sample_parse_def overflow_payload_def sample_payload_def)
  have n: "sample_status \<noteq> JNull" by (simp add: sample_status_def)
  have n': "overflow_status \<noteq> JNull" by (simp add: overflow_status_def)
  have l: "\<not> code_log_throws sample_status"
    by (simp add: code_log_throws_def sample_status_def)
  have l': "\<not> code_log_throws overflow_status"
    by (simp add: code_log_throws_def overflow_status_def)
  have ty: "typed_telemetry sample_status"
    by (simp add: typed_telemetry_def sample_status_def)
  have r: "\<not> device_exists (pool registered) ''D1''"
    by (simp add: device_exists_def registered_def empty_db_def)
  have c: "device_exists (pool claimed) ''D1''"
    by (simp add: device_exists_def claimed_def)
  have hr: "device_history (pool registered) = []"
    by (simp add: registered_def empty_db_def)
  have hc: "device_history (pool claimed) = []"
    by (simp add: claimed_def)
  have v: "history_values (pool claimed) ''D1'' sample_status
             = Some \<lparr>h_device_id = ''D1'', relay_state = None, wifi_rssi = None,
                     uptime = Some 42, free_heap = None\<rparr>"
    by (simp add: history_values_def sample_status_def)
  have v': "history_values (pool claimed) ''D1'' overflow_status = None"
    by (simp add: history_values_def overflow_status_def)
  have t: "''solar/'' @ ''D1'' @ ''/status'' = ''solar/D1/status''" by simp
  note at_registered =
    status_history [of "''D1''" sample_parse sample_payload sample_status 1000 registered
      "fst (on_message sample_parse 1000 registered ''solar/D1/status'' sample_payload)"
      "snd (on_message sample_parse 1000 registered ''solar/D1/status'' sample_payload)"]
  note at_claimed =
    status_history [of "''D1''" sample_parse sample_payload sample_status 1000 claimed
      "fst (on_message sample_parse 1000 claimed ''solar/D1/status'' sample_payload)"
      "snd (on_message sample_parse 1000 claimed ''solar/D1/status'' sample_payload)"]
  note at_overflow =
    status_history [of "''D1''" sample_parse overflow_payload overflow_status 1000 claimed
      "fst (on_message sample_parse 1000 claimed ''solar/D1/status'' overflow_payload)"
      "snd (on_message sample_parse 1000 claimed ''solar/D1/status'' overflow_payload)"]
  from at_registered d p n l r hr have
    "device_history (pool (snd (on_message sample_parse 1000 registered
                                   ''solar/D1/status'' sample_payload))) = []
     \<and> deviceStatuses (snd (on_message sample_parse 1000 registered
                             ''solar/D1/status'' sample_payload)) ''D1''
       = Some \<lparr>telemetry = spread_telemetry sample_status, lastSeen = 1000, online = True\<rparr>"
    by (simp add: t)
  moreover from at_claimed d p n l c hc v have
    "device_history (pool (snd (on_message sample_parse 1000 claimed
                                   ''solar/D1/status'' sample_payload)))
       = [\<lparr>h_device_id = ''D1'', relay_state = None, wifi_rssi = None,
           uptime = Some 42, free_heap = None\<rparr>]
     \<and> deviceStatuses (snd (on_message sample_parse 1000 claimed
                             ''solar/D1/status'' sample_payload)) ''D1''
       = Some \<lparr>telemetry = spread_telemetry sample_status, lastSeen = 1000, online = True\<rparr>"
    by (simp add: t)
  moreover from at_overflow d p' n' l' c hc v' have
    "device_history (pool (snd (on_message sample_parse 1000 claimed
                                   ''solar/D1/status'' overflow_payload))) = []"
    by (simp add: t)
  ultimately show ?thesis
    using p p' ty r c v' by simp
qed

section \<open>Presence: sweep and refresh\<close>





section \<open>The online topic\<close>

lemma online_message:
  assumes "CHR ''/'' \<notin> set deviceId"
  shows "on_message JSON_parse now s (''solar/'' @ deviceId @ ''/online'') message =
     (Handled,
      s\<lparr>deviceStatuses := (deviceStatuses s)(deviceId \<mapsto>
           \<lparr>telemetry = (case deviceStatuses s deviceId of
                           None \<Rightarrow> Map.empty
                         | Some r \<Rightarrow> telemetry r),
            lastSeen = now, online = (message = ''true'')\<rparr>)\<rparr>)"
proof -
  have "split_on CHR ''/'' (''solar/'' @ deviceId @ ''/'' @ ''online'')
          = [''solar'', deviceId, ''online'']"
    using assms by (intro topic_parts) simp_all
  then show ?thesis
    by (simp add: on_message_def Let_def)
qed

text \<open>
  C10. Every message on the online topic of a device id is handled, whatever its
  payload: the id's presence record afterwards has its online flag true exactly when the
  payload is the text \<^verbatim>\<open>true\<close>, and false for any other payload; its last-seen time is
  the processing time; its telemetry properties are those of the record before the
  message (none when there was no record). The records of other ids, the store, the
  confirmation registry and the publications are unchanged.
\<close>

theorem online_topic_sets_flag:
  assumes "CHR ''/'' \<notin> set deviceId"
    and "on_message JSON_parse now s (''solar/'' @ deviceId @ ''/online'') message = (out, s')"
  shows "out = Handled
       \<and> (\<exists>r'. deviceStatuses s' deviceId = Some r'
             \<and> online r' = (message = ''true'')
             \<and> lastSeen r' = now
             \<and> telemetry r' = (case deviceStatuses s deviceId of
                                 None \<Rightarrow> Map.empty
                               | Some r \<Rightarrow> telemetry r))
       \<and> (\<forall>other. other \<noteq> deviceId \<longrightarrow> deviceStatuses s' other = deviceStatuses s other)
       \<and> pool s' = pool s
       \<and> deviceConfirmationCodes s' = deviceConfirmationCodes s
       \<and> published s' = published s"
  using assms(2) online_message [OF assms(1), of JSON_parse now s message]
  by auto

text \<open>
  \<open>D1\<close> has a record with telemetry, online. The payload \<^verbatim>\<open>false\<close> and the payload
  \<^verbatim>\<open>maybe\<close> set it offline, the payload \<^verbatim>\<open>true\<close> keeps it online; the telemetry stays.
\<close>

theorem online_topic_sets_flag_witness:
  "deviceStatuses seen ''D1'' = Some seen_record
   \<and> deviceStatuses (snd (on_message sample_parse 2000 seen ''solar/D1/online'' ''false''))
        ''D1''
       = Some \<lparr>telemetry = telemetry seen_record, lastSeen = 2000, online = False\<rparr>
   \<and> fst (on_message sample_parse 2000 seen ''solar/D1/online'' ''maybe'') = Handled
   \<and> deviceStatuses (snd (on_message sample_parse 2000 seen ''solar/D1/online'' ''maybe''))
        ''D1''
       = Some \<lparr>telemetry = telemetry seen_record, lastSeen = 2000, online = False\<rparr>
   \<and> deviceStatuses (snd (on_message sample_parse 2000 seen ''solar/D1/online'' ''true''))
        ''D1''
       = Some \<lparr>telemetry = telemetry seen_record, lastSeen = 2000, online = True\<rparr>"
proof -
  have a: "deviceStatuses seen ''D1'' = Some seen_record"
    by (simp add: seen_def)
  have d: "CHR ''/'' \<notin> set ''D1''" by simp
  have t: "''solar/'' @ ''D1'' @ ''/online'' = ''solar/D1/online''" by simp
  have c: "on_message sample_parse 2000 seen (''solar/'' @ ''D1'' @ ''/online'') m
           = (fst (on_message sample_parse 2000 seen ''solar/D1/online'' m),
              snd (on_message sample_parse 2000 seen ''solar/D1/online'' m))" for m
    by (simp add: t)
  note f = online_topic_sets_flag [OF d c [of "''false''"]]
  note g = online_topic_sets_flag [OF d c [of "''maybe''"]]
  note h = online_topic_sets_flag [OF d c [of "''true''"]]
  from f a have
    "deviceStatuses (snd (on_message sample_parse 2000 seen ''solar/D1/online'' ''false''))
        ''D1''
       = Some \<lparr>telemetry = telemetry seen_record, lastSeen = 2000, online = False\<rparr>"
    by auto
  moreover from g a have
    "fst (on_message sample_parse 2000 seen ''solar/D1/online'' ''maybe'') = Handled
     \<and> deviceStatuses (snd (on_message sample_parse 2000 seen ''solar/D1/online'' ''maybe''))
        ''D1''
       = Some \<lparr>telemetry = telemetry seen_record, lastSeen = 2000, online = False\<rparr>"
    by auto
  moreover from h a have
    "deviceStatuses (snd (on_message sample_parse 2000 seen ''solar/D1/online'' ''true''))
        ''D1''
       = Some \<lparr>telemetry = telemetry seen_record, lastSeen = 2000, online = True\<rparr>"
    by auto
  ultimately show ?thesis using a by simp
qed


section \<open>The reconnect cooldown\<close>

lemma unat_millis_diff:
  assumes "a \<le> c"
  shows "unat (of_nat c - of_nat a :: 32 word) = (c - a) mod 2 ^ 32"
proof -
  have "(of_nat c - of_nat a :: 32 word) = of_nat (c - a)"
    using assms by (simp add: of_nat_diff)
  then show ?thesis
    by (simp only: unat_of_nat) simp
qed

lemma millis_diff_less:
  assumes "a \<le> c"
  shows "(of_nat c - of_nat a < (5000 :: 32 word)) = ((c - a) mod 2 ^ 32 < 5000)"
  by (simp only: word_less_nat_alt unat_millis_diff [OF assms]) simp

lemma no_attempt_in_cooldown:
  assumes "lastAttempt fw = of_nat a" and "a \<le> c" and "c < a + 5000"
    and "millis_test r = of_nat c"
  shows "reconnectMQTT r fw = (False, fw)"
proof -
  have "(c - a) mod 2 ^ 32 \<le> c - a" by simp
  with assms(3) have "(c - a) mod 2 ^ 32 < 5000" by linarith
  then have "millis_test r - lastAttempt fw < 5000"
    using assms(1,4) millis_diff_less [OF assms(2)] by simp
  then show ?thesis
    by (simp add: reconnectMQTT_def)
qed

lemma attempt_gap:
  assumes "a \<le> c" and "\<not> (of_nat c - of_nat a < (5000 :: 32 word))"
  shows "a + 5000 \<le> c"
proof -
  from assms have "\<not> (c - a) mod 2 ^ 32 < 5000"
    using millis_diff_less [OF assms(1)] by simp
  moreover have "(c - a) mod 2 ^ 32 \<le> c - a" by simp
  ultimately have "5000 \<le> c - a" by linarith
  then show ?thesis using assms(1) by linarith
qed

text \<open>All attempts of a run that starts right after an attempt at time a.\<close>

lemma attempts_after:
  assumes "lastAttempt fw = of_nat a"
    and "sorted (a # clock_reads es)"
  shows "spaced (a # attempt_times es fw)"
  using assms
proof (induction es arbitrary: fw a)
  case Nil
  then show ?case by simp
next
  case (Cons e es)
  let ?fw = "fw\<lparr>wifiConnected := wifi_up e\<rparr>"
  from Cons.prems(2) have ord: "a \<le> t_test e" "t_test e \<le> t_store e"
    and rest: "sorted (t_store e # clock_reads es)"
    and rest_a: "sorted (a # clock_reads es)"
    by (auto simp: clock_reads_def)
  show ?case
  proof (cases "fst (reconnectMQTT (readings_of e) ?fw)")
    case True
    then have w: "wifi_up e"
      and far: "\<not> (of_nat (t_test e) - of_nat a < (5000 :: 32 word))"
      using Cons.prems(1)
      by (auto simp: reconnectMQTT_def readings_of_def Let_def split: if_splits)
    from attempt_gap [OF ord(1) far] ord(2) have gap: "a + 5000 \<le> t_store e" by simp
    from True have la: "lastAttempt (snd (reconnectMQTT (readings_of e) ?fw))
                          = of_nat (t_store e)"
      by (auto simp: reconnectMQTT_def readings_of_def sendStatus_def Let_def
          split: if_splits)
    from Cons.IH [OF la rest] True gap show ?thesis
      by (simp add: split_beta)
  next
    case False
    then have same: "snd (reconnectMQTT (readings_of e) ?fw) = ?fw"
      by (auto simp: reconnectMQTT_def Let_def split: if_splits)
    have "lastAttempt ?fw = of_nat a" using Cons.prems(1) by simp
    from Cons.IH [OF this rest_a] False same show ?thesis
      by (simp add: split_beta)
  qed
qed

lemma spaced_tail: "spaced (a # ts) \<Longrightarrow> spaced ts"
  by (cases ts) simp_all

lemma attempts_spaced:
  assumes "sorted (clock_reads es)"
  shows "spaced (attempt_times es fw)"
  using assms
proof (induction es arbitrary: fw)
  case Nil
  then show ?case by simp
next
  case (Cons e es)
  let ?fw = "fw\<lparr>wifiConnected := wifi_up e\<rparr>"
  from Cons.prems have rest: "sorted (t_store e # clock_reads es)"
    and rest': "sorted (clock_reads es)"
    by (auto simp: clock_reads_def)
  show ?case
  proof (cases "fst (reconnectMQTT (readings_of e) ?fw)")
    case True
    then have la: "lastAttempt (snd (reconnectMQTT (readings_of e) ?fw))
                          = of_nat (t_store e)"
      by (auto simp: reconnectMQTT_def readings_of_def sendStatus_def Let_def
          split: if_splits)
    from attempts_after [OF la rest] True show ?thesis
      by (simp add: split_beta)
  next
    case False
    with Cons.IH [OF rest'] show ?thesis
      by (simp add: split_beta)
  qed
qed

text \<open>
  C9. An invocation of the reconnect routine for which the 32-bit difference between
  the clock and the stored time of the last attempt is below 5000 returns without calling
  the broker and leaves the firmware's state as it is; in particular so does every
  invocation that comes less than 5000 ms after the last attempt. Hence in every run of
  invocations whose clock reads are in time order, however many there are and whatever the
  WiFi flag and the broker's answers, two consecutive connection attempts are at least
  5000 ms apart.
\<close>

theorem reconnect_cooldown:
  "(millis_test r - lastAttempt fw < 5000 \<longrightarrow> reconnectMQTT r fw = (False, fw))
   \<and> (lastAttempt fw = of_nat a \<and> a \<le> c \<and> c < a + 5000 \<and> millis_test r = of_nat c
        \<longrightarrow> reconnectMQTT r fw = (False, fw))
   \<and> (sorted (clock_reads es) \<longrightarrow> spaced (attempt_times es fw0))"
  using no_attempt_in_cooldown [of fw a c r] attempts_spaced [of es fw0]
  by (simp add: reconnectMQTT_def)

text \<open>
  In the sample run the attempts are made at 6001 and at 11001; the invocation at 6010,
  nine milliseconds after the attempt at 6001, makes none.
\<close>

theorem reconnect_cooldown_witness:
  "lastAttempt retried = of_nat 6001
   \<and> millis_test (readings_of (sample_run ! 2)) = of_nat 6010
   \<and> reconnectMQTT (readings_of (sample_run ! 2)) retried = (False, retried)
   \<and> sorted (clock_reads sample_run)
   \<and> attempt_times sample_run booted = [6001, 11001]
   \<and> spaced (attempt_times sample_run booted)"
proof -
  have a: "lastAttempt retried = of_nat 6001"
    by (simp add: retried_def)
  have b: "millis_test (readings_of (sample_run ! 2)) = of_nat 6010"
    by (simp add: sample_run_def readings_of_def)
  have c: "sorted (clock_reads sample_run)"
    by (simp add: sample_run_def clock_reads_def)
  have d: "attempt_times sample_run booted = [6001, 11001]"
    by (simp add: sample_run_def booted_def reconnectMQTT_def readings_of_def Let_def)
  have e: "(6001 :: nat) \<le> 6010 \<and> (6010 :: nat) < 6001 + 5000" by simp
  show ?thesis
    using a b c d e
      reconnect_cooldown [of "readings_of (sample_run ! 2)" retried 6001 6010
        sample_run booted]
    by simp
qed



end
